theory Spec2Isabelle
  imports Main
begin

section \<open>The text buffer behind a document\<close>

text \<open>
  \<^verbatim>\<open>document.c\<close> reaches the editing widget only through the \<^verbatim>\<open>sci_*\<close> wrappers
  and \<^verbatim>\<open>scintilla_send_message\<close>. Their code is not part of the files at hand, so
  the buffer is a record of what those calls read and write: the bytes, the anchor and
  the caret (whose minimum and maximum are the selection), the target range, and the
  flag that tells whether the buffer left its save point. Positions are \<^verbatim>\<open>gint\<close>
  byte offsets and are kept as \<^typ>\<open>int\<close>.
\<close>

record ScintillaObject =
  buf :: string
  anchor :: int
  caret :: int
  tgt_start :: int
  tgt_end :: int
  search_anchor :: int
  modified :: bool

text \<open>
  Modelled from the spec: the pattern matcher of the widget (\<^verbatim>\<open>find(range, pattern,
  flags) -> matchRange\<close> of the text buffer contract). It is a parameter of every
  search operation below: given the flags, the buffer bytes, the two ends of the range
  and the pattern it answers with the matched range, or with nothing. A range whose
  first end lies after its second end is searched backwards.
\<close>

type_synonym finder = "int \<Rightarrow> string \<Rightarrow> int \<Rightarrow> int \<Rightarrow> string \<Rightarrow> (int \<times> int) option"

text \<open>
  Modelled from the spec: what a regular-expression replacement inserts for a
  replacement template (\<^verbatim>\<open>replaceTarget(text, isRegex)\<close>), given the buffer, the
  target range and the template. Plain replacements insert the template itself.
\<close>

type_synonym expander = "string \<Rightarrow> int \<Rightarrow> int \<Rightarrow> string \<Rightarrow> string"

definition SCFIND_REGEXP :: int where
  "SCFIND_REGEXP = 2097152"

definition regexp_flag :: "int \<Rightarrow> bool" where
  "regexp_flag flags = odd (flags div SCFIND_REGEXP)"

definition CH_NUL :: char where "CH_NUL = CHR 0x00"
definition CH_TAB :: char where "CH_TAB = CHR 0x09"
definition CH_LF :: char where "CH_LF = CHR 0x0A"
definition CH_CR :: char where "CH_CR = CHR 0x0D"
definition CH_SPACE :: char where "CH_SPACE = CHR 0x20"

text \<open>
  Modelled from the spec: the reading half of the text buffer contract
  (\<^verbatim>\<open>length\<close>, character access, \<^verbatim>\<open>lineCount\<close>, \<^verbatim>\<open>positionFromLine\<close>,
  \<^verbatim>\<open>getSelectionStart/End\<close>). A read outside the buffer yields the NUL byte. A
  line ends at a line feed, at a carriage return, or at a carriage return followed by a
  line feed.
\<close>

definition sci_get_length :: "ScintillaObject \<Rightarrow> int" where
  "sci_get_length sci = int (length (buf sci))"

definition sci_get_char_at :: "ScintillaObject \<Rightarrow> int \<Rightarrow> char" where
  "sci_get_char_at sci pos =
     (if 0 \<le> pos \<and> pos < sci_get_length sci then buf sci ! nat pos else CH_NUL)"

fun line_starts_from :: "nat \<Rightarrow> string \<Rightarrow> nat list" where
  "line_starts_from p [] = []"
| "line_starts_from p [c] = (if c = CH_LF \<or> c = CH_CR then [p + 1] else [])"
| "line_starts_from p (c # d # ds) =
     (if c = CH_CR \<and> d = CH_LF then (p + 2) # line_starts_from (p + 2) ds
      else if c = CH_LF \<or> c = CH_CR then (p + 1) # line_starts_from (p + 1) (d # ds)
      else line_starts_from (p + 1) (d # ds))"

definition line_starts :: "string \<Rightarrow> nat list" where
  "line_starts s = 0 # line_starts_from 0 s"

definition sci_get_line_count :: "ScintillaObject \<Rightarrow> int" where
  "sci_get_line_count sci = int (length (line_starts (buf sci)))"

definition sci_get_position_from_line :: "ScintillaObject \<Rightarrow> int \<Rightarrow> int" where
  "sci_get_position_from_line sci line =
     (if 0 \<le> line \<and> line < sci_get_line_count sci then int (line_starts (buf sci) ! nat line)
      else if line = sci_get_line_count sci then sci_get_length sci
      else - 1)"

definition sci_get_selection_start :: "ScintillaObject \<Rightarrow> int" where
  "sci_get_selection_start sci = min (anchor sci) (caret sci)"

definition sci_get_selection_end :: "ScintillaObject \<Rightarrow> int" where
  "sci_get_selection_end sci = max (anchor sci) (caret sci)"

section \<open>Indentation detection\<close>

text \<open>
  \<^verbatim>\<open>detect_use_tabs\<close>: the \<^verbatim>\<open>for\<close> loop over the lines, with its two counters.
  The counters are \<^verbatim>\<open>gsize\<close>; each is at most the line count, a \<^verbatim>\<open>gint\<close>, so
  neither they nor their doubles wrap and they are kept as \<^typ>\<open>nat\<close>.
  \<^verbatim>\<open>editor_prefs.use_tabs\<close> is the first argument.
\<close>

function detect_use_tabs_loop :: "ScintillaObject \<Rightarrow> int \<Rightarrow> nat \<Rightarrow> nat \<Rightarrow> nat \<times> nat" where
  "detect_use_tabs_loop sci line tabs spaces =
     (if line < sci_get_line_count sci then
        (let pos = sci_get_position_from_line sci line;
             c = sci_get_char_at sci pos
         in if c = CH_TAB then detect_use_tabs_loop sci (line + 1) (tabs + 1) spaces
            else if c = CH_SPACE then
              (if sci_get_char_at sci (pos + 1) = CH_SPACE
               then detect_use_tabs_loop sci (line + 1) tabs (spaces + 1)
               else detect_use_tabs_loop sci (line + 1) tabs spaces)
            else detect_use_tabs_loop sci (line + 1) tabs spaces)
      else (tabs, spaces))"
  by pat_completeness auto
termination
  by (relation "measure (\<lambda>(sci, line, tabs, spaces). nat (sci_get_line_count sci - line))") auto

definition detect_use_tabs :: "bool \<Rightarrow> ScintillaObject \<Rightarrow> bool" where
  "detect_use_tabs use_tabs_pref sci =
     (case detect_use_tabs_loop sci 0 0 0 of
        (tabs, spaces) \<Rightarrow>
          if spaces = 0 \<and> tabs = 0 then use_tabs_pref
          else if use_tabs_pref then \<not> (spaces > tabs * 2)
          else tabs > spaces * 2)"

text \<open>
  The two quantities the description of the detection speaks of: the number of lines
  whose first character is a tab, and the number of lines that start with two spaces.
\<close>

definition line_numbers :: "ScintillaObject \<Rightarrow> int list" where
  "line_numbers sci = [0 .. sci_get_line_count sci - 1]"

definition starts_with_tab :: "ScintillaObject \<Rightarrow> int \<Rightarrow> bool" where
  "starts_with_tab sci line =
     (sci_get_char_at sci (sci_get_position_from_line sci line) = CH_TAB)"

definition starts_with_two_spaces :: "ScintillaObject \<Rightarrow> int \<Rightarrow> bool" where
  "starts_with_two_spaces sci line =
     (sci_get_char_at sci (sci_get_position_from_line sci line) = CH_SPACE \<and>
      sci_get_char_at sci (sci_get_position_from_line sci line + 1) = CH_SPACE)"

definition tab_lines :: "ScintillaObject \<Rightarrow> nat" where
  "tab_lines sci = length (filter (starts_with_tab sci) (line_numbers sci))"

definition space_lines :: "ScintillaObject \<Rightarrow> nat" where
  "space_lines sci = length (filter (starts_with_two_spaces sci) (line_numbers sci))"

section \<open>Documents\<close>

text \<open>
  The fields of \<^verbatim>\<open>GeanyDocument\<close> and of its private part \<^verbatim>\<open>Document\<close> that the
  functions below read or write. Pointers that may be \<^verbatim>\<open>NULL\<close> are options. The
  structure declarations themselves (\<^verbatim>\<open>document.h\<close>, \<^verbatim>\<open>documentprivate.h\<close>) are
  not among the files at hand; the fields are those \<^verbatim>\<open>init_doc_struct\<close> initialises.
\<close>

record FileEncoding =
  fe_encoding :: "string option"
  fe_has_bom :: bool

datatype gpointer = GNull | GInt int | GStr string

record undo_action =
  ua_type :: nat
  ua_data :: gpointer

definition UNDO_SCINTILLA :: nat where "UNDO_SCINTILLA = 0"
definition UNDO_ENCODING :: nat where "UNDO_ENCODING = 1"
definition UNDO_BOM :: nat where "UNDO_BOM = 2"

record Document =
  is_valid :: bool
  doc_sci :: "ScintillaObject option"
  file_name :: "string option"
  real_path :: "string option"
  file_type :: "nat option"
  encoding :: "string option"
  has_bom :: bool
  saved_encoding :: FileEncoding
  changed :: bool
  readonly :: bool
  use_tabs :: bool
  mtime :: int
  last_check :: int
  undo_actions :: "undo_action list"
  redo_actions :: "undo_action list"

text \<open>
  Modelled from the spec: \<^verbatim>\<open>utils_str_equal\<close> compares two strings that may be
  \<^verbatim>\<open>NULL\<close> (two absent strings are equal, an absent and a present one are not).
\<close>

definition utils_str_equal :: "string option \<Rightarrow> string option \<Rightarrow> bool" where
  "utils_str_equal a b = (a = b)"

definition GINT_TO_POINTER :: "bool \<Rightarrow> gpointer" where
  "GINT_TO_POINTER b = GInt (if b then 1 else 0)"

fun GPOINTER_TO_INT :: "gpointer \<Rightarrow> bool" where
  "GPOINTER_TO_INT GNull = False"
| "GPOINTER_TO_INT (GInt n) = (n \<noteq> 0)"
| "GPOINTER_TO_INT (GStr s) = True"

fun gpointer_string :: "gpointer \<Rightarrow> string option" where
  "gpointer_string (GStr s) = Some s"
| "gpointer_string GNull = None"
| "gpointer_string (GInt n) = None"

definition g_strdup :: "string option \<Rightarrow> gpointer" where
  "g_strdup s = (case s of None \<Rightarrow> GNull | Some t \<Rightarrow> GStr t)"

text \<open>
  A live document always has its widget: \<^verbatim>\<open>document_create\<close> sets \<^verbatim>\<open>is_valid\<close>
  after \<^verbatim>\<open>sci\<close>, and \<^verbatim>\<open>document_remove_page\<close> clears both. The C code
  dereferences \<^verbatim>\<open>doc->sci\<close> unchecked; \<open>on_sci\<close> applies a buffer operation to the
  widget of a document and has nothing to apply it to when the pointer is \<^verbatim>\<open>NULL\<close>.
\<close>

definition on_sci :: "(ScintillaObject \<Rightarrow> ScintillaObject) \<Rightarrow> Document \<Rightarrow> Document" where
  "on_sci f doc = doc\<lparr>doc_sci := map_option f (doc_sci doc)\<rparr>"

definition sci_is_modified :: "ScintillaObject option \<Rightarrow> bool" where
  "sci_is_modified s = (case s of None \<Rightarrow> False | Some w \<Rightarrow> modified w)"

definition sci_set_savepoint :: "ScintillaObject \<Rightarrow> ScintillaObject" where
  "sci_set_savepoint w = w\<lparr>modified := False\<rparr>"

text \<open>
  \<^verbatim>\<open>document_set_text_changed\<close> stores the flag; the rest of its body refreshes the
  user interface.
\<close>

definition document_set_text_changed :: "Document \<Rightarrow> bool \<Rightarrow> Document" where
  "document_set_text_changed doc c = doc\<lparr>changed := c\<rparr>"

definition store_saved_encoding :: "Document \<Rightarrow> Document" where
  "store_saved_encoding doc =
     doc\<lparr>saved_encoding := \<lparr>fe_encoding = encoding doc, fe_has_bom = has_bom doc\<rparr>\<rparr>"

definition document_set_encoding :: "Document \<Rightarrow> string option \<Rightarrow> Document" where
  "document_set_encoding doc new_encoding =
     (if new_encoding = None \<or> utils_str_equal new_encoding (encoding doc) then doc
      else doc\<lparr>encoding := new_encoding\<rparr>)"

section \<open>The undo and redo ledger\<close>

text \<open>
  The two stacks are \<^verbatim>\<open>GTrashStack\<close>s; a list with its head as the top. The native
  undo and redo of the widget (\<^verbatim>\<open>sci_undo\<close>, \<^verbatim>\<open>sci_redo\<close>) are parameters.
\<close>

definition document_undo_add :: "Document \<Rightarrow> nat \<Rightarrow> gpointer \<Rightarrow> Document" where
  "document_undo_add doc t d =
     document_set_text_changed
       (doc\<lparr>undo_actions := \<lparr>ua_type = t, ua_data = d\<rparr> # undo_actions doc\<rparr>) True"

definition document_redo_add :: "Document \<Rightarrow> nat \<Rightarrow> gpointer \<Rightarrow> Document" where
  "document_redo_add doc t d =
     document_set_text_changed
       (doc\<lparr>redo_actions := \<lparr>ua_type = t, ua_data = d\<rparr> # redo_actions doc\<rparr>) True"

definition update_changed_state :: "Document \<Rightarrow> Document" where
  "update_changed_state doc =
     document_set_text_changed doc
       (sci_is_modified (doc_sci doc) \<or>
        has_bom doc \<noteq> fe_has_bom (saved_encoding doc) \<or>
        \<not> utils_str_equal (encoding doc) (fe_encoding (saved_encoding doc)))"

definition document_undo :: "(ScintillaObject \<Rightarrow> ScintillaObject) \<Rightarrow> Document \<Rightarrow> Document" where
  "document_undo sci_undo doc =
     update_changed_state
       (case undo_actions doc of
          [] \<Rightarrow> on_sci sci_undo doc
        | action # rest \<Rightarrow>
            (let doc1 = doc\<lparr>undo_actions := rest\<rparr> in
             if ua_type action = UNDO_SCINTILLA then
               on_sci sci_undo (document_redo_add doc1 UNDO_SCINTILLA GNull)
             else if ua_type action = UNDO_BOM then
               (document_redo_add doc1 UNDO_BOM (GINT_TO_POINTER (has_bom doc1)))
                 \<lparr>has_bom := GPOINTER_TO_INT (ua_data action)\<rparr>
             else if ua_type action = UNDO_ENCODING then
               document_set_encoding
                 (document_redo_add doc1 UNDO_ENCODING (g_strdup (encoding doc1)))
                 (gpointer_string (ua_data action))
             else doc1))"

definition document_redo :: "(ScintillaObject \<Rightarrow> ScintillaObject) \<Rightarrow> Document \<Rightarrow> Document" where
  "document_redo sci_redo doc =
     update_changed_state
       (case redo_actions doc of
          [] \<Rightarrow> on_sci sci_redo doc
        | action # rest \<Rightarrow>
            (let doc1 = doc\<lparr>redo_actions := rest\<rparr> in
             if ua_type action = UNDO_SCINTILLA then
               on_sci sci_redo (document_undo_add doc1 UNDO_SCINTILLA GNull)
             else if ua_type action = UNDO_BOM then
               (document_undo_add doc1 UNDO_BOM (GINT_TO_POINTER (has_bom doc1)))
                 \<lparr>has_bom := GPOINTER_TO_INT (ua_data action)\<rparr>
             else if ua_type action = UNDO_ENCODING then
               document_set_encoding
                 (document_undo_add doc1 UNDO_ENCODING (g_strdup (encoding doc1)))
                 (gpointer_string (ua_data action))
             else doc1))"

text \<open>
  The composite flag of the data model: the buffer left its save point, or the
  byte-order mark or the charset differ from the saved snapshot.
\<close>

definition composite_changed :: "Document \<Rightarrow> bool" where
  "composite_changed doc =
     (sci_is_modified (doc_sci doc) \<or>
      has_bom doc \<noteq> fe_has_bom (saved_encoding doc) \<or>
      encoding doc \<noteq> fe_encoding (saved_encoding doc))"

text \<open>A small document used to run the operations on concrete input.\<close>

definition sample_sci :: ScintillaObject where
  "sample_sci = \<lparr>buf = ''abc'', anchor = 0, caret = 0, tgt_start = 0, tgt_end = 0,
     search_anchor = 0, modified = False\<rparr>"

definition sample_doc :: Document where
  "sample_doc = \<lparr>is_valid = True, doc_sci = Some sample_sci, file_name = Some ''/tmp/a.txt'',
     real_path = Some ''/tmp/a.txt'', file_type = None, encoding = Some ''UTF-8'',
     has_bom = False, saved_encoding = \<lparr>fe_encoding = Some ''UTF-8'', fe_has_bom = False\<rparr>,
     changed = True, readonly = False, use_tabs = True, mtime = 0, last_check = 0,
     undo_actions = [\<lparr>ua_type = UNDO_BOM, ua_data = GInt 1\<rparr>], redo_actions = []\<rparr>"

section \<open>The environment of the document functions\<close>

text \<open>
  Everything the functions of \<^verbatim>\<open>document.c\<close> ask of code outside the file: the
  encoding helpers of \<^verbatim>\<open>encodings.c\<close>, GLib, the file system, the preferences and
  the editor hooks. None of it is among the files at hand, so it is a parameter: one
  record of functions and settings, passed to each function that uses a part of it.
\<close>

datatype GeanyEncodingIndex =
  GEANY_ENCODING_UTF_8 | GEANY_ENCODING_UTF_7 | GEANY_ENCODING_NONE | GEANY_ENCODING_OTHER nat

datatype convert_error = G_CONVERT_ERROR_ILLEGAL_SEQUENCE nat | G_CONVERT_ERROR_OTHER

record environment =
  encodings_scan_unicode_bom :: "string \<Rightarrow> nat \<Rightarrow> GeanyEncodingIndex \<times> nat"
  encodings_charset :: "GeanyEncodingIndex \<Rightarrow> string"
  encodings_convert_to_utf8_from_charset :: "string \<Rightarrow> nat \<Rightarrow> string \<Rightarrow> string option"
  encodings_convert_to_utf8 :: "string \<Rightarrow> nat \<Rightarrow> (string \<times> string) option"
  encodings_is_unicode_charset :: "string option \<Rightarrow> bool"
  g_utf8_validate :: "string \<Rightarrow> nat \<Rightarrow> bool"
  g_convert_from_utf8 :: "string \<Rightarrow> string \<Rightarrow> convert_error + string"
  utils_get_locale_from_utf8 :: "string \<Rightarrow> string"
  utils_get_utf8_from_locale :: "string \<Rightarrow> string"
  tm_get_real_path :: "string \<Rightarrow> string option"
  g_stat :: "string \<Rightarrow> (int \<times> nat) option"
  g_file_get_contents :: "string \<Rightarrow> string option"
  g_fopen_wb :: "string \<Rightarrow> int option"
  fwrite_result :: "string \<Rightarrow> string \<Rightarrow> nat \<times> int"
  fclose_result :: "string \<Rightarrow> string \<Rightarrow> int"
  file_prefs_replace_tabs :: bool
  file_prefs_strip_trailing_spaces :: bool
  file_prefs_final_new_line :: bool
  file_prefs_default_open_encoding :: "GeanyEncodingIndex option"
  editor_prefs_use_tabs :: bool
  editor_prefs_detect_tab_mode :: bool
  editor_replace_tabs :: "Document \<Rightarrow> Document"
  editor_strip_trailing_spaces :: "Document \<Rightarrow> Document"
  editor_ensure_final_newline :: "Document \<Rightarrow> Document"
  filetype_is_make :: "nat option \<Rightarrow> bool"
  filetypes_detect_from_file :: "string option \<Rightarrow> nat option"
  main_status_quitting :: bool
  file_prefs_disk_check_timeout :: int
  time_now :: int
  dialogs_show_question_reload :: bool
  dialogs_show_unsaved_file :: bool
  dialogs_show_question_resave :: bool
  dialogs_show_save_as :: "Document list \<Rightarrow> Document list"
  filetype_is_none :: "nat option \<Rightarrow> bool"
  utils_replace_filename :: "Document \<Rightarrow> Document"
  scintilla_new :: ScintillaObject

section \<open>The encoding pipeline of a load\<close>

text \<open>
  \<^verbatim>\<open>FileData\<close>, the transient record of a load. \<^verbatim>\<open>data\<close> holds the bytes read from
  the file, \<^verbatim>\<open>size\<close> the size the file system reported and \<^verbatim>\<open>len\<close> the C string
  length of the data, which stops at the first NUL byte.
\<close>

record FileData =
  fd_data :: string
  fd_size :: nat
  fd_len :: nat
  fd_enc :: "string option"
  fd_bom :: bool
  fd_mtime :: int
  fd_readonly :: bool

definition strlen :: "string \<Rightarrow> nat" where
  "strlen s = length (takeWhile (\<lambda>c. c \<noteq> CH_NUL) s)"

text \<open>
  \<^verbatim>\<open>handle_encoding\<close>: the result is the returned \<^verbatim>\<open>gboolean\<close> and the file data as
  the function leaves it. The two \<^verbatim>\<open>g_return_val_if_fail\<close> checks come first.
\<close>

definition handle_encoding_bom :: "environment \<Rightarrow> FileData \<Rightarrow> FileData" where
  "handle_encoding_bom env filedata =
     (let enc_idx = fst (encodings_scan_unicode_bom env (fd_data filedata) (fd_size filedata)) in
      if enc_idx \<noteq> GEANY_ENCODING_NONE then
        (let fd1 = filedata\<lparr>fd_enc := Some (encodings_charset env enc_idx), fd_bom := True\<rparr> in
         if enc_idx \<noteq> GEANY_ENCODING_UTF_8 then
           (case encodings_convert_to_utf8_from_charset env (fd_data fd1) (fd_size fd1)
                   (encodings_charset env enc_idx) of
              Some converted_text \<Rightarrow>
                fd1\<lparr>fd_data := converted_text, fd_len := strlen converted_text\<rparr>
            | None \<Rightarrow> fd1\<lparr>fd_enc := None, fd_bom := False\<rparr>)
         else fd1)
      else filedata)"

definition handle_encoding_detect :: "environment \<Rightarrow> FileData \<Rightarrow> bool \<times> FileData" where
  "handle_encoding_detect env filedata =
     (if fd_enc filedata = None then
        (if g_utf8_validate env (fd_data filedata) (fd_len filedata)
         then (True, filedata\<lparr>fd_enc := Some ''UTF-8''\<rparr>)
         else (case encodings_convert_to_utf8 env (fd_data filedata) (fd_size filedata) of
                 None \<Rightarrow> (False, filedata)
               | Some (converted_text, used_encoding) \<Rightarrow>
                   (True, filedata\<lparr>fd_enc := Some used_encoding, fd_data := converted_text,
                      fd_len := strlen converted_text\<rparr>)))
      else (True, filedata))"

definition handle_encoding :: "environment \<Rightarrow> FileData \<Rightarrow> bool \<times> FileData" where
  "handle_encoding env filedata =
     (if fd_enc filedata \<noteq> None then (False, filedata)
      else if fd_bom filedata then (False, filedata)
      else if fd_size filedata = 0 then (True, filedata\<lparr>fd_enc := Some ''UTF-8''\<rparr>)
      else handle_encoding_detect env (handle_encoding_bom env filedata))"

section \<open>Saving a document\<close>

definition get_real_path_from_utf8 :: "environment \<Rightarrow> string option \<Rightarrow> string option" where
  "get_real_path_from_utf8 env utf8_filename =
     (case utf8_filename of
        None \<Rightarrow> None
      | Some u \<Rightarrow> tm_get_real_path env (utils_get_locale_from_utf8 env u))"

definition document_update_timestamp :: "environment \<Rightarrow> Document \<Rightarrow> Document" where
  "document_update_timestamp env doc =
     (case file_name doc of
        None \<Rightarrow> doc
      | Some u \<Rightarrow>
          (case g_stat env (utils_get_locale_from_utf8 env u) of
             None \<Rightarrow> doc
           | Some (st_mtime, st_size) \<Rightarrow> doc\<lparr>mtime := st_mtime\<rparr>))"

text \<open>
  \<^verbatim>\<open>save_convert_to_encoding\<close>: \<^verbatim>\<open>g_convert\<close> from UTF-8 to the charset of the
  document; on an error the function reports it and returns \<^verbatim>\<open>FALSE\<close> with the data
  untouched, here \<open>None\<close>.
\<close>

definition save_convert_to_encoding :: "environment \<Rightarrow> Document \<Rightarrow> string \<Rightarrow> string option" where
  "save_convert_to_encoding env doc data =
     (case encoding doc of
        None \<Rightarrow> None
      | Some enc \<Rightarrow>
          (case g_convert_from_utf8 env data enc of
             Inl conv_error \<Rightarrow> None
           | Inr conv_file_contents \<Rightarrow> Some conv_file_contents))"

text \<open>
  \<^verbatim>\<open>write_data_to_disk\<close>: the returned error number. \<open>g_fopen_wb\<close> answers with the
  \<^verbatim>\<open>errno\<close> of a failed \<^verbatim>\<open>g_fopen\<close>, or with nothing when the file opened;
  \<open>fwrite_result\<close> answers with the number of bytes written and the \<^verbatim>\<open>errno\<close> then;
  \<open>fclose_result\<close> is what \<^verbatim>\<open>fclose\<close> returns, \<open>0\<close> or \<^verbatim>\<open>EOF\<close> when the buffered
  bytes could not be written out. The function calls \<^verbatim>\<open>fclose\<close> and drops its result.
\<close>

definition write_data_to_disk :: "environment \<Rightarrow> Document \<Rightarrow> string \<Rightarrow> int" where
  "write_data_to_disk env doc data =
     (let locale_filename =
            (case file_name doc of None \<Rightarrow> [] | Some u \<Rightarrow> utils_get_locale_from_utf8 env u)
      in case g_fopen_wb env locale_filename of
           Some errno \<Rightarrow> errno
         | None \<Rightarrow>
             (case fwrite_result env locale_filename data of
                (bytes_written, errno) \<Rightarrow>
                  (let err = (if length data \<noteq> bytes_written then errno else 0);
                       closed = fclose_result env locale_filename data
                   in err)))"

text \<open>
  \<^verbatim>\<open>document_save_file\<close> in the order of its body: the two early returns, the
  normalisations of the buffer before the save, the text with its UTF-8 byte-order mark,
  the conversion to the charset of the document, the write, and only then the updates of
  the document.
\<close>

definition presave_normalize :: "environment \<Rightarrow> Document \<Rightarrow> Document" where
  "presave_normalize env doc =
     (let doc1 = (if file_prefs_replace_tabs env \<and> \<not> filetype_is_make env (file_type doc)
                  then editor_replace_tabs env doc else doc);
          doc2 = (if file_prefs_strip_trailing_spaces env
                  then editor_strip_trailing_spaces env doc1 else doc1)
      in if file_prefs_final_new_line env
         then editor_ensure_final_newline env doc2 else doc2)"

definition sci_get_text :: "ScintillaObject option \<Rightarrow> string" where
  "sci_get_text s = (case s of None \<Rightarrow> [] | Some w \<Rightarrow> buf w)"

definition utf8_bom :: string where
  "utf8_bom = [CHR 0xEF, CHR 0xBB, CHR 0xBF]"

definition save_text_with_bom :: "environment \<Rightarrow> Document \<Rightarrow> string" where
  "save_text_with_bom env doc =
     (if has_bom doc \<and> encodings_is_unicode_charset env (encoding doc)
      then utf8_bom @ sci_get_text (doc_sci doc)
      else sci_get_text (doc_sci doc))"

definition save_encode :: "environment \<Rightarrow> Document \<Rightarrow> string \<Rightarrow> string option" where
  "save_encode env doc data =
     (if encoding doc \<noteq> None \<and> \<not> utils_str_equal (encoding doc) (Some ''UTF-8'') \<and>
         \<not> utils_str_equal (encoding doc) (Some (encodings_charset env GEANY_ENCODING_NONE))
      then save_convert_to_encoding env doc data
      else Some (take (strlen data) data))"

definition save_commit :: "environment \<Rightarrow> Document \<Rightarrow> Document" where
  "save_commit env doc =
     (let doc1 = store_saved_encoding
                   (doc\<lparr>real_path := get_real_path_from_utf8 env (file_name doc)\<rparr>)
      in if \<not> main_status_quitting env
         then document_update_timestamp env (on_sci sci_set_savepoint doc1)
         else doc1)"

definition document_save_file :: "environment \<Rightarrow> Document \<Rightarrow> bool \<Rightarrow> bool \<times> Document" where
  "document_save_file env doc force =
     (if \<not> force \<and> (\<not> changed doc \<or> readonly doc) then (False, doc)
      else if file_name doc = None then (False, doc)
      else
        (let doc1 = presave_normalize env doc in
         case save_encode env doc1 (save_text_with_bom env doc1) of
           None \<Rightarrow> (False, doc1)
         | Some data \<Rightarrow>
             (let err = write_data_to_disk env doc1 data in
              if err \<noteq> 0 then (False, doc1)
              else (True, save_commit env doc1))))"

text \<open>An environment to run the functions on concrete input: the only charsets it
  knows are UTF-8 and, behind the byte-order mark FF FE, UTF-16LE; every conversion
  fails, only ASCII validates as UTF-8, and no file can be opened for writing.\<close>

definition sample_scan_bom :: "string \<Rightarrow> nat \<Rightarrow> GeanyEncodingIndex \<times> nat" where
  "sample_scan_bom s n =
     (if take 3 s = [CHR 0xEF, CHR 0xBB, CHR 0xBF] \<and> 3 \<le> n then (GEANY_ENCODING_UTF_8, 3)
      else if take 2 s = [CHR 0xFF, CHR 0xFE] \<and> 2 \<le> n then (GEANY_ENCODING_OTHER 1, 2)
      else (GEANY_ENCODING_NONE, 0))"

fun sample_charset :: "GeanyEncodingIndex \<Rightarrow> string" where
  "sample_charset GEANY_ENCODING_UTF_8 = ''UTF-8''"
| "sample_charset GEANY_ENCODING_UTF_7 = ''UTF-7''"
| "sample_charset GEANY_ENCODING_NONE = ''None''"
| "sample_charset (GEANY_ENCODING_OTHER n) = ''UTF-16LE''"

definition sample_env :: environment where
  "sample_env = \<lparr>
     encodings_scan_unicode_bom = sample_scan_bom,
     encodings_charset = sample_charset,
     encodings_convert_to_utf8_from_charset = (\<lambda>s n c. None),
     encodings_convert_to_utf8 = (\<lambda>s n. None),
     encodings_is_unicode_charset = (\<lambda>c. c = Some ''UTF-8'' \<or> c = Some ''UTF-16LE''),
     g_utf8_validate = (\<lambda>s n. list_all (\<lambda>c. of_char c < (128 :: nat)) (take n s)),
     g_convert_from_utf8 = (\<lambda>s c. Inl G_CONVERT_ERROR_OTHER),
     utils_get_locale_from_utf8 = (\<lambda>s. s),
     utils_get_utf8_from_locale = (\<lambda>s. s),
     tm_get_real_path = (\<lambda>s. Some s),
     g_stat = (\<lambda>s. Some (7, 3)),
     g_file_get_contents = (\<lambda>s. Some ''abc''),
     g_fopen_wb = (\<lambda>s. Some 13),
     fwrite_result = (\<lambda>s d. (0, 28)),
     fclose_result = (\<lambda>s d. 0),
     file_prefs_replace_tabs = False,
     file_prefs_strip_trailing_spaces = False,
     file_prefs_final_new_line = False,
     file_prefs_default_open_encoding = None,
     editor_prefs_use_tabs = True,
     editor_prefs_detect_tab_mode = True,
     editor_replace_tabs = (\<lambda>d. d),
     editor_strip_trailing_spaces = (\<lambda>d. d),
     editor_ensure_final_newline = (\<lambda>d. d),
     filetype_is_make = (\<lambda>t. False),
     filetypes_detect_from_file = (\<lambda>f. None),
     main_status_quitting = False,
     file_prefs_disk_check_timeout = 30,
     time_now = 100,
     dialogs_show_question_reload = False,
     dialogs_show_unsaved_file = False,
     dialogs_show_question_resave = False,
     dialogs_show_save_as = (\<lambda>docs. docs),
     filetype_is_none = (\<lambda>t. t = None),
     utils_replace_filename = (\<lambda>d. d),
     scintilla_new = sample_sci\<rparr>"

definition sample_filedata :: FileData where
  "sample_filedata = \<lparr>fd_data = [CHR 0xFF, CHR 0xFE, CHR 0x41, CHR 0xD8], fd_size = 4,
     fd_len = 4, fd_enc = None, fd_bom = False, fd_mtime = 0, fd_readonly = False\<rparr>"

text \<open>
  A save is attempted when the two early returns of \<^verbatim>\<open>document_save_file\<close> are
  passed: it is forced or the document is changed and writable, and it has a file name.
\<close>

definition save_attempted :: "Document \<Rightarrow> bool \<Rightarrow> bool" where
  "save_attempted doc force =
     ((force \<or> changed doc \<and> \<not> readonly doc) \<and> file_name doc \<noteq> None)"

text \<open>
  Inputs for a save. In \<open>writable_env\<close> every file can be written. In
  \<open>flush_fail_env\<close> the file opens and \<^verbatim>\<open>fwrite\<close> takes all the bytes into its
  buffer, and \<^verbatim>\<open>fclose\<close> fails to write them out (a full disk); in
  \<open>short_write_env\<close> \<^verbatim>\<open>fwrite\<close> writes one byte and leaves \<^verbatim>\<open>errno\<close> at \<open>0\<close>.
  \<open>unsaved_doc\<close> is a changed document that has a name and has not been saved under
  it, and whose encoding was UTF-16LE with a byte-order mark when it was last stored;
  \<open>latin1_doc\<close> is a document in a charset other than UTF-8.
\<close>

definition writable_env :: environment where
  "writable_env = sample_env\<lparr>g_fopen_wb := (\<lambda>s. None),
     fwrite_result := (\<lambda>s d. (length d, 0))\<rparr>"

definition flush_fail_env :: environment where
  "flush_fail_env = writable_env\<lparr>fclose_result := (\<lambda>s d. - 1)\<rparr>"

definition short_write_env :: environment where
  "short_write_env = sample_env\<lparr>g_fopen_wb := (\<lambda>s. None),
     fwrite_result := (\<lambda>s d. (1, 0))\<rparr>"

definition unsaved_doc :: Document where
  "unsaved_doc = sample_doc\<lparr>doc_sci := Some (sample_sci\<lparr>modified := True\<rparr>),
     real_path := None,
     saved_encoding := \<lparr>fe_encoding = Some ''UTF-16LE'', fe_has_bom = True\<rparr>\<rparr>"

definition latin1_doc :: Document where
  "latin1_doc = sample_doc\<lparr>encoding := Some ''ISO-8859-1''\<rparr>"

section \<open>Searching and replacing\<close>

text \<open>
  Modelled from the spec: the writing half of the text buffer contract
  (\<^verbatim>\<open>setSelectionStart/End\<close>, the caret moves, \<^verbatim>\<open>setTargetRange\<close>,
  \<^verbatim>\<open>replaceTarget\<close>, the search primitives). A caret move clamps the position into the
  buffer and leaves an empty selection. A search that hits selects the match; a search
  that misses changes nothing. Replacing the target removes the target range (when it is
  not empty), inserts the replacement at the target start, makes the inserted text the
  new target and answers with its length. The position after a position is the next
  character boundary of the UTF-8 text, and the end of the buffer at its end.
\<close>

definition clamp_position :: "ScintillaObject \<Rightarrow> int \<Rightarrow> int" where
  "clamp_position sci pos = max 0 (min pos (sci_get_length sci))"

definition sci_goto_pos :: "ScintillaObject \<Rightarrow> int \<Rightarrow> ScintillaObject" where
  "sci_goto_pos sci pos = sci\<lparr>anchor := clamp_position sci pos, caret := clamp_position sci pos\<rparr>"

definition sci_set_current_position :: "ScintillaObject \<Rightarrow> int \<Rightarrow> ScintillaObject" where
  "sci_set_current_position sci position =
     sci\<lparr>caret := clamp_position sci position, anchor := clamp_position sci position\<rparr>"

definition sci_set_selection_start :: "ScintillaObject \<Rightarrow> int \<Rightarrow> ScintillaObject" where
  "sci_set_selection_start sci position =
     sci\<lparr>caret := max (caret sci) position, anchor := position\<rparr>"

definition sci_set_selection_end :: "ScintillaObject \<Rightarrow> int \<Rightarrow> ScintillaObject" where
  "sci_set_selection_end sci position =
     sci\<lparr>caret := position, anchor := min (anchor sci) position\<rparr>"

definition sci_set_search_anchor :: "ScintillaObject \<Rightarrow> ScintillaObject" where
  "sci_set_search_anchor sci = sci\<lparr>search_anchor := sci_get_selection_start sci\<rparr>"

definition sci_search_next :: "finder \<Rightarrow> ScintillaObject \<Rightarrow> int \<Rightarrow> string \<Rightarrow> int \<times> ScintillaObject" where
  "sci_search_next fnd sci flags text =
     (case fnd flags (buf sci) (search_anchor sci) (sci_get_length sci) text of
        None \<Rightarrow> (- 1, sci)
      | Some (s, e) \<Rightarrow> (s, sci\<lparr>caret := s, anchor := e\<rparr>))"

definition sci_search_prev :: "finder \<Rightarrow> ScintillaObject \<Rightarrow> int \<Rightarrow> string \<Rightarrow> int \<times> ScintillaObject" where
  "sci_search_prev fnd sci flags text =
     (case fnd flags (buf sci) (search_anchor sci) 0 text of
        None \<Rightarrow> (- 1, sci)
      | Some (s, e) \<Rightarrow> (s, sci\<lparr>caret := s, anchor := e\<rparr>))"

text \<open>
  \<^verbatim>\<open>sci_find_text\<close> with a \<^verbatim>\<open>TextToFind\<close>: the returned position and the two ends
  of \<^verbatim>\<open>chrgText\<close>. On a miss the position is \<open>-1\<close> and \<^verbatim>\<open>chrgText\<close> is not
  written; no caller reads it then.
\<close>

definition sci_find_text :: "finder \<Rightarrow> ScintillaObject \<Rightarrow> int \<Rightarrow> int \<Rightarrow> int \<Rightarrow> string \<Rightarrow> int \<times> int \<times> int" where
  "sci_find_text fnd sci flags cpMin cpMax text =
     (case fnd flags (buf sci) cpMin cpMax text of
        None \<Rightarrow> (- 1, 0, 0)
      | Some (s, e) \<Rightarrow> (s, s, e))"

definition sci_target_start :: "ScintillaObject \<Rightarrow> int \<Rightarrow> ScintillaObject" where
  "sci_target_start sci pos = sci\<lparr>tgt_start := pos\<rparr>"

definition sci_target_end :: "ScintillaObject \<Rightarrow> int \<Rightarrow> ScintillaObject" where
  "sci_target_end sci pos = sci\<lparr>tgt_end := pos\<rparr>"

definition sci_target_from_selection :: "ScintillaObject \<Rightarrow> ScintillaObject" where
  "sci_target_from_selection sci =
     sci\<lparr>tgt_start := sci_get_selection_start sci, tgt_end := sci_get_selection_end sci\<rparr>"

definition sci_target_replace :: "expander \<Rightarrow> ScintillaObject \<Rightarrow> string \<Rightarrow> bool \<Rightarrow> int \<times> ScintillaObject" where
  "sci_target_replace rex sci text regex =
     (let s = tgt_start sci; e = tgt_end sci;
          ins = (if regex then rex (buf sci) s e text else text)
      in (int (length ins),
          sci\<lparr>buf := take (nat s) (buf sci) @ ins @ drop (nat (max s e)) (buf sci),
              tgt_end := s + int (length ins), modified := True\<rparr>))"

definition utf8_trail_byte :: "char \<Rightarrow> bool" where
  "utf8_trail_byte c = (128 \<le> (of_char c :: nat) \<and> (of_char c :: nat) < 192)"

definition position_after :: "ScintillaObject \<Rightarrow> int \<Rightarrow> int" where
  "position_after sci pos =
     (if pos + 1 \<le> 0 then 0
      else if sci_get_length sci \<le> pos + 1 then sci_get_length sci
      else pos + 1 + int (length (takeWhile utf8_trail_byte (drop (nat (pos + 1)) (buf sci)))))"

text \<open>
  A matcher for plain, case-sensitive text, to run the search functions on concrete
  input: forwards the first occurrence that lies inside the range, backwards the last.
\<close>

definition plain_find :: finder where
  "plain_find flags b lo hi pat =
     (let n = int (length b); m = int (length pat);
          lo' = max 0 (min lo n); hi' = max 0 (min hi n)
      in if lo' \<le> hi' then
           (case List.find (\<lambda>p. int p + m \<le> hi' \<and> take (length pat) (drop p b) = pat)
                   [nat lo' ..< Suc (nat hi')] of
              None \<Rightarrow> None
            | Some p \<Rightarrow> Some (int p, int p + m))
         else
           (case List.find (\<lambda>p. int p + m \<le> lo' \<and> take (length pat) (drop p b) = pat)
                   (rev [nat hi' ..< Suc (nat lo')]) of
              None \<Rightarrow> None
            | Some p \<Rightarrow> Some (int p, int p + m)))"

text \<open>
  \<^verbatim>\<open>document_find_text\<close>. The function touches the document only through its widget,
  which is passed in its place. \<^verbatim>\<open>search_prefs.suppress_dialogs\<close> is the argument
  \<open>suppress\<close>; the wrap-around question is the argument \<open>dialog\<close>, asked with the
  number of questions shown so far, and that number is returned with the result.
  A C string is the list of its characters before the terminator.
\<close>

definition find_text_pass :: "finder \<Rightarrow> ScintillaObject \<Rightarrow> string \<Rightarrow> int \<Rightarrow> bool \<Rightarrow> int \<times> ScintillaObject" where
  "find_text_pass fnd sci text flags search_backwards =
     (let selection_start = sci_get_selection_start sci;
          selection_end = sci_get_selection_end sci;
          sci1 = (if selection_end - selection_start > 0
                  then (if search_backwards then sci_goto_pos sci selection_start
                        else sci_goto_pos sci selection_end)
                  else sci);
          sci2 = sci_set_search_anchor sci1
      in if search_backwards then sci_search_prev fnd sci2 flags text
         else sci_search_next fnd sci2 flags text)"

lemma buf_find_text_pass [simp]:
  "buf (snd (find_text_pass fnd sci text flags back)) = buf sci"
  by (simp add: find_text_pass_def Let_def sci_search_prev_def sci_search_next_def
        sci_set_search_anchor_def sci_goto_pos_def split: option.splits)

lemma find_text_pass_buf:
  "(p, sci1) = find_text_pass fnd sci text flags back \<Longrightarrow> buf sci1 = buf sci"
  by (metis buf_find_text_pass snd_conv)

lemma selection_after_set_current_position [simp]:
  "sci_get_selection_end (sci_set_current_position sci p) = clamp_position sci p"
  "sci_get_selection_start (sci_set_current_position sci p) = clamp_position sci p"
  "buf (sci_set_current_position sci p) = buf sci"
  by (simp_all add: sci_set_current_position_def sci_get_selection_end_def
        sci_get_selection_start_def)

lemma clamp_position_edges [simp]:
  "clamp_position sci 0 = 0"
  "clamp_position sci (sci_get_length sci) = sci_get_length sci"
  by (simp_all add: clamp_position_def sci_get_length_def)

text \<open>
  The caret stands at the edge a search starts from after a wrap: at the start of the
  buffer for a forward search, at its end for a backward one.
\<close>

definition at_search_edge :: "ScintillaObject \<Rightarrow> int \<Rightarrow> bool \<Rightarrow> bool" where
  "at_search_edge sci flags search_backwards =
     (let back = (\<not> regexp_flag flags \<and> search_backwards)
      in (sci_get_selection_end sci = 0 \<and> \<not> back) \<or>
         (sci_get_selection_end sci = sci_get_length sci \<and> back))"

function document_find_text ::
  "finder \<Rightarrow> bool \<Rightarrow> (nat \<Rightarrow> bool) \<Rightarrow> ScintillaObject \<Rightarrow> nat \<Rightarrow> string \<Rightarrow> int \<Rightarrow> bool
     \<Rightarrow> int \<times> ScintillaObject \<times> nat" where
  "document_find_text fnd suppress dialog sci k text flags search_backwards =
     (if text = [] then (- 1, sci, k)
      else
        (let back = (\<not> regexp_flag flags \<and> search_backwards);
             selection_start = sci_get_selection_start sci;
             selection_end = sci_get_selection_end sci
         in case find_text_pass fnd sci text flags back of
              (search_pos, sci1) \<Rightarrow>
                if search_pos \<noteq> - 1 then (search_pos, sci1, k)
                else
                  (let sci_len = sci_get_length sci1
                   in if (selection_end = 0 \<and> \<not> back) \<or> (selection_end = sci_len \<and> back)
                      then (- 1, sci1, k)
                      else if suppress \<or> dialog k then
                        (case document_find_text fnd suppress dialog
                                (sci_set_current_position sci1 (if back then sci_len else 0))
                                (if suppress then k else k + 1) text flags back of
                           (ret, sci2, k') \<Rightarrow>
                             if ret = - 1
                             then (ret, sci_set_current_position sci2 selection_start, k')
                             else (ret, sci2, k'))
                      else (search_pos, sci1, k + 1))))"
  by pat_completeness auto
termination
  apply (relation "measure (\<lambda>(fnd, suppress, dialog, sci, k, text, flags, back).
                   if at_search_edge sci flags back then 0 else 1)")
   apply simp
  apply (auto simp: at_search_edge_def sci_get_length_def clamp_position_def
              dest!: find_text_pass_buf)
  done

declare document_find_text.simps [simp del]

text \<open>
  \<^verbatim>\<open>document_replace_text\<close>, on the widget of the document. The question counter is
  passed on to \<^verbatim>\<open>document_find_text\<close>.
\<close>

definition document_replace_text ::
  "finder \<Rightarrow> expander \<Rightarrow> bool \<Rightarrow> (nat \<Rightarrow> bool) \<Rightarrow> ScintillaObject \<Rightarrow> nat \<Rightarrow> string \<Rightarrow> string
     \<Rightarrow> int \<Rightarrow> bool \<Rightarrow> int \<times> ScintillaObject \<times> nat" where
  "document_replace_text fnd rex suppress dialog sci k find_text replace_text flags search_backwards =
     (if find_text = [] then (- 1, sci, k)
      else
        (let back = (\<not> regexp_flag flags \<and> search_backwards);
             selection_start = sci_get_selection_start sci;
             selection_end = sci_get_selection_end sci
         in if selection_end = selection_start then
              (case document_find_text fnd suppress dialog sci k find_text flags back of
                 (search_pos, sci1, k') \<Rightarrow> (- 1, sci1, k'))
            else
              (let sci1 = (if back then sci_goto_pos sci selection_end
                           else sci_goto_pos sci selection_start)
               in case document_find_text fnd suppress dialog sci1 k find_text flags back of
                    (search_pos, sci2, k') \<Rightarrow>
                      if search_pos \<noteq> selection_start then (- 1, sci2, k')
                      else if search_pos \<noteq> - 1 then
                        (case sci_target_replace rex (sci_target_from_selection sci2)
                                replace_text (regexp_flag flags) of
                           (replace_len, sci3) \<Rightarrow>
                             (search_pos,
                              sci_set_selection_end
                                (sci_set_selection_start sci3 search_pos)
                                (search_pos + replace_len),
                              k'))
                      else (search_pos, sci2, k'))))"

text \<open>\<^verbatim>\<open>document_search_bar_find\<close>, on the widget of the document.\<close>

definition document_search_bar_find ::
  "finder \<Rightarrow> ScintillaObject \<Rightarrow> string \<Rightarrow> int \<Rightarrow> bool \<Rightarrow> bool \<times> ScintillaObject" where
  "document_search_bar_find fnd sci text flags inc =
     (if text = [] then (True, sci)
      else
        (let start_pos = (if inc then sci_get_selection_start sci
                          else sci_get_selection_end sci);
             first = sci_find_text fnd sci flags start_pos (sci_get_length sci) text;
             found = (if fst first = - 1
                      then sci_find_text fnd sci flags 0 (start_pos + int (length text)) text
                      else first)
         in case found of
              (search_pos, cpMin, cpMax) \<Rightarrow>
                if search_pos \<noteq> - 1
                then (True, sci_set_selection_end (sci_set_selection_start sci cpMin) cpMax)
                else (False, sci_goto_pos sci start_pos)))"

text \<open>
  \<^verbatim>\<open>document_replace_range\<close>. The document is passed as the two fields the function
  reads: \<^verbatim>\<open>doc->readonly\<close> and the widget \<^verbatim>\<open>doc->sci\<close>. The \<^verbatim>\<open>while (TRUE)\<close>
  loop has no bound of its own, so it is a partial function: \<open>None\<close> is a loop that
  never leaves. The state of the loop is the widget, \<^verbatim>\<open>ttf.chrg.cpMin\<close>, \<^verbatim>\<open>end\<close>
  (which \<^verbatim>\<open>ttf.chrg.cpMax\<close> always equals) and \<^verbatim>\<open>count\<close>. The result of the function is
  the count, the value stored in \<^verbatim>\<open>*new_range_end\<close> and the widget.
\<close>

partial_function (option) document_replace_range_loop ::
  "finder \<Rightarrow> expander \<Rightarrow> string \<Rightarrow> string \<Rightarrow> int \<Rightarrow> ScintillaObject \<Rightarrow> int \<Rightarrow> int \<Rightarrow> int
     \<Rightarrow> (ScintillaObject \<times> int \<times> int \<times> int) option" where
  "document_replace_range_loop fnd rex find_text replace_text flags sci cpMin end_pos count =
     (case sci_find_text fnd sci flags cpMin end_pos find_text of
        (search_pos, chrgText_cpMin, chrgText_cpMax) \<Rightarrow>
          (let find_len = chrgText_cpMax - chrgText_cpMin in
           if search_pos = - 1 then Some (sci, cpMin, end_pos, count)
           else if find_len = 0 \<and> replace_text = [] then Some (sci, cpMin, end_pos, count)
           else if search_pos + find_len > end_pos then Some (sci, cpMin, end_pos, count)
           else
             (let sci1 = sci_target_end (sci_target_start sci search_pos) (search_pos + find_len);
                  movepastEOL =
                    (if find_len \<le> 0 \<and>
                        (sci_get_char_at sci1 (tgt_end sci1) = CH_CR \<or>
                         sci_get_char_at sci1 (tgt_end sci1) = CH_LF)
                     then 1 else 0)
              in case sci_target_replace rex sci1 replace_text (regexp_flag flags) of
                   (replace_len, sci2) \<Rightarrow>
                     if search_pos = end_pos then Some (sci2, cpMin, end_pos, count + 1)
                     else
                       (let start = search_pos + replace_len + movepastEOL;
                            start' = (if find_len = 0 then position_after sci2 start else start)
                        in document_replace_range_loop fnd rex find_text replace_text flags
                             sci2 start' (end_pos + replace_len - find_len) (count + 1)))))"

declare document_replace_range_loop.simps [code]

definition document_replace_range ::
  "finder \<Rightarrow> expander \<Rightarrow> bool \<Rightarrow> ScintillaObject \<Rightarrow> string \<Rightarrow> string \<Rightarrow> int \<Rightarrow> int \<Rightarrow> int \<Rightarrow> bool
     \<Rightarrow> (int \<times> int \<times> ScintillaObject) option" where
  "document_replace_range fnd rex doc_readonly sci find_text replace_text flags start end_pos
       scroll_to_match =
     (if find_text = [] \<or> doc_readonly then Some (0, - 1, sci)
      else
        (case document_replace_range_loop fnd rex find_text replace_text flags sci start end_pos 0 of
           None \<Rightarrow> None
         | Some (sci1, cpMin, end1, count) \<Rightarrow>
             if count > 0
             then Some (count, end1, if scroll_to_match then sci_goto_pos sci1 cpMin else sci1)
             else Some (count, - 1, sci1)))"

text \<open>A fresh widget holding a given text, to run the functions on concrete input.\<close>

definition sci_of :: "string \<Rightarrow> ScintillaObject" where
  "sci_of s = \<lparr>buf = s, anchor = 0, caret = 0, tgt_start = 0, tgt_end = 0,
     search_anchor = 0, modified = False\<rparr>"

text \<open>
  What the search functions need from the matcher of the widget: a match lies inside the
  buffer, its end is not before its start, and it does not start before the lower end of
  the searched range (taken inside the buffer).
\<close>

definition finder_in_range :: "finder \<Rightarrow> bool" where
  "finder_in_range fnd =
     (\<forall>flags b lo hi pat s e.
        fnd flags b lo hi pat = Some (s, e) \<longrightarrow>
          0 \<le> s \<and> s \<le> e \<and> e \<le> int (length b) \<and> min (min lo hi) (int (length b)) \<le> s)"

text \<open>
  Names for the pieces of one round of the replace loop: the replacement of the match
  \<open>[s, e)\<close> through the target, and the position the next search starts from.
\<close>

definition replace_match :: "expander \<Rightarrow> ScintillaObject \<Rightarrow> int \<Rightarrow> int \<Rightarrow> string \<Rightarrow> int \<Rightarrow> int \<times> ScintillaObject" where
  "replace_match rex sci s e replace_text flags =
     sci_target_replace rex (sci_target_end (sci_target_start sci s) e) replace_text
       (regexp_flag flags)"

definition next_search_start :: "ScintillaObject \<Rightarrow> ScintillaObject \<Rightarrow> int \<Rightarrow> int \<Rightarrow> int \<Rightarrow> int" where
  "next_search_start sci sci2 s e replace_len =
     (let movepastEOL =
            (if e - s \<le> 0 \<and> (sci_get_char_at sci e = CH_CR \<or> sci_get_char_at sci e = CH_LF)
             then 1 else 0);
          start = s + replace_len + movepastEOL
      in if e - s = 0 then position_after sci2 start else start)"

text \<open>The size of the window that is left to search, which shrinks with every round.\<close>

definition window_measure :: "int \<Rightarrow> int \<Rightarrow> nat" where
  "window_measure cpMin end_pos = (if cpMin \<le> end_pos then nat (end_pos - cpMin) + 1 else 0)"

text \<open>
  Names for the parts of \<^verbatim>\<open>document_find_text\<close>: the direction after the regular
  expression rule, the widget as the pass leaves for its search, the position the pass
  searches from, and the pass made after a wrap-around. A pass has searched the entire
  buffer when it started at the edge of the buffer that lies against its direction.
\<close>

definition effective_backwards :: "int \<Rightarrow> bool \<Rightarrow> bool" where
  "effective_backwards flags search_backwards = (\<not> regexp_flag flags \<and> search_backwards)"

definition pass_start_state :: "ScintillaObject \<Rightarrow> bool \<Rightarrow> ScintillaObject" where
  "pass_start_state sci search_backwards =
     sci_set_search_anchor
       (if sci_get_selection_end sci - sci_get_selection_start sci > 0
        then (if search_backwards then sci_goto_pos sci (sci_get_selection_start sci)
              else sci_goto_pos sci (sci_get_selection_end sci))
        else sci)"

definition search_origin :: "ScintillaObject \<Rightarrow> bool \<Rightarrow> int" where
  "search_origin sci search_backwards =
     (if sci_get_selection_end sci - sci_get_selection_start sci > 0
      then clamp_position sci (if search_backwards then sci_get_selection_start sci
                               else sci_get_selection_end sci)
      else sci_get_selection_start sci)"

definition searched_entire_buffer :: "ScintillaObject \<Rightarrow> bool \<Rightarrow> bool" where
  "searched_entire_buffer sci search_backwards =
     (if search_backwards then search_origin sci search_backwards = sci_get_length sci
      else search_origin sci search_backwards = 0)"

definition selection_in_buffer :: "ScintillaObject \<Rightarrow> bool" where
  "selection_in_buffer sci =
     (0 \<le> anchor sci \<and> anchor sci \<le> sci_get_length sci \<and>
      0 \<le> caret sci \<and> caret sci \<le> sci_get_length sci)"

definition wrapped_pass :: "finder \<Rightarrow> ScintillaObject \<Rightarrow> string \<Rightarrow> int \<Rightarrow> bool \<Rightarrow> int \<times> ScintillaObject" where
  "wrapped_pass fnd sci text flags search_backwards =
     (let back = effective_backwards flags search_backwards;
          sci1 = snd (find_text_pass fnd sci text flags back)
      in find_text_pass fnd
           (sci_set_current_position sci1 (if back then sci_get_length sci1 else 0))
           text flags back)"

text \<open>The text \<open>xyz\<close> with the caret at position 2 and no selection.\<close>

definition sci_xyz_at_2 :: ScintillaObject where
  "sci_xyz_at_2 = (sci_of ''xyz'')\<lparr>anchor := 2, caret := 2\<rparr>"

text \<open>
  The text \<open>xyab\<close> with its last two characters selected, as a search that found
  \<open>ab\<close> leaves it, and with only the character before the last selected.
\<close>

definition sci_xyab_sel_ab :: ScintillaObject where
  "sci_xyab_sel_ab = (sci_of ''xyab'')\<lparr>anchor := 2, caret := 4\<rparr>"

definition sci_xyab_sel_a :: ScintillaObject where
  "sci_xyab_sel_a = (sci_of ''xyab'')\<lparr>anchor := 2, caret := 3\<rparr>"

text \<open>The text \<open>abcabc\<close> with its first two characters selected.\<close>

definition sci_abcabc_sel_ab :: ScintillaObject where
  "sci_abcabc_sel_ab = (sci_of ''abcabc'')\<lparr>anchor := 0, caret := 2\<rparr>"

text \<open>The text \<open>abc\<close> with the caret at position 1 and no selection.\<close>

definition sci_abc_at_1 :: ScintillaObject where
  "sci_abc_at_1 = (sci_of ''abc'')\<lparr>anchor := 1, caret := 1\<rparr>"

text \<open>The position a search reports for what the matcher answered.\<close>

definition match_pos :: "(int \<times> int) option \<Rightarrow> int" where
  "match_pos m = (case m of None \<Rightarrow> - 1 | Some (s, e) \<Rightarrow> s)"

section \<open>The document registry and opening a file\<close>

text \<open>
  \<^verbatim>\<open>documents_array\<close> is the list of the documents; a \<^verbatim>\<open>GeanyDocument *\<close> into it is
  the index of its slot. \<^verbatim>\<open>filenamecmp\<close> is \<^verbatim>\<open>strcmp\<close> (the variant for platforms
  other than Windows), so two names compare equal when they are the same string.
\<close>

definition document_find_by_real_path :: "Document list \<Rightarrow> string option \<Rightarrow> nat option" where
  "document_find_by_real_path docs realname =
     (case realname of
        None \<Rightarrow> None
      | Some r \<Rightarrow>
          List.find (\<lambda>i. is_valid (docs ! i) \<and> real_path (docs ! i) \<noteq> None \<and>
                         real_path (docs ! i) = Some r)
            [0 ..< length docs])"

definition document_find_by_filename :: "environment \<Rightarrow> Document list \<Rightarrow> string option \<Rightarrow> nat option" where
  "document_find_by_filename env docs utf8_filename =
     (case utf8_filename of
        None \<Rightarrow> None
      | Some u \<Rightarrow>
          (case List.find (\<lambda>i. is_valid (docs ! i) \<and> file_name (docs ! i) \<noteq> None \<and>
                               file_name (docs ! i) = Some u)
                  [0 ..< length docs] of
             Some i \<Rightarrow> Some i
           | None \<Rightarrow> document_find_by_real_path docs (get_real_path_from_utf8 env (Some u))))"

definition document_get_new_idx :: "Document list \<Rightarrow> nat option" where
  "document_get_new_idx docs = List.find (\<lambda>i. doc_sci (docs ! i) = None) [0 ..< length docs]"

definition init_doc_struct :: "environment \<Rightarrow> Document" where
  "init_doc_struct env =
     \<lparr>is_valid = False, doc_sci = None, file_name = None, real_path = None, file_type = None,
      encoding = None, has_bom = False,
      saved_encoding = \<lparr>fe_encoding = None, fe_has_bom = False\<rparr>,
      changed = False, readonly = False, use_tabs = False, mtime = 0,
      last_check = time_now env, undo_actions = [], redo_actions = []\<rparr>"

definition document_undo_clear :: "environment \<Rightarrow> Document \<Rightarrow> Document" where
  "document_undo_clear env doc =
     (let doc1 = doc\<lparr>undo_actions := [], redo_actions := []\<rparr>
      in if \<not> main_status_quitting env \<and> doc_sci doc1 \<noteq> None
         then document_set_text_changed doc1 False else doc1)"

text \<open>
  Modelled from the spec: the notebook holds one page per widget, in the order of the
  slots; its pages are the slots that have a widget.
\<close>

definition notebook_pages :: "Document list \<Rightarrow> nat list" where
  "notebook_pages docs = filter (\<lambda>i. doc_sci (docs ! i) \<noteq> None) [0 ..< length docs]"

text \<open>
  \<^verbatim>\<open>document_remove_page\<close>, for the page of slot \<open>i\<close>: the question about unsaved
  changes, then the slot is cleared.
\<close>

definition document_remove_page :: "environment \<Rightarrow> Document list \<Rightarrow> nat \<Rightarrow> bool \<times> Document list" where
  "document_remove_page env docs i =
     (let doc = docs ! i in
      if changed doc \<and> \<not> dialogs_show_unsaved_file env then (False, docs)
      else
        (True,
         docs[i := document_undo_clear env
                     (doc\<lparr>is_valid := False, doc_sci := None, file_name := None,
                          real_path := None, file_type := None, encoding := None,
                          has_bom := False\<rparr>)]))"

text \<open>
  \<^verbatim>\<open>document_create\<close>: a lone, unnamed, unchanged document is removed first; then the
  first slot without a widget is taken, or a zeroed one is appended; the slot is
  initialised, named, given its new widget and marked valid last.
\<close>

definition document_create :: "environment \<Rightarrow> Document list \<Rightarrow> string option \<Rightarrow> Document list \<times> nat" where
  "document_create env docs utf8_filename =
     (let docs1 =
            (case notebook_pages docs of
               [i] \<Rightarrow>
                 if is_valid (docs ! i) \<and> file_name (docs ! i) = None \<and> \<not> changed (docs ! i)
                 then snd (document_remove_page env docs i) else docs
             | _ \<Rightarrow> docs);
          this = (init_doc_struct env)
                   \<lparr>file_name := utf8_filename, doc_sci := Some (scintilla_new env),
                    is_valid := True\<rparr>
      in case document_get_new_idx docs1 of
           None \<Rightarrow> (docs1 @ [this], length docs1)
         | Some new_idx \<Rightarrow> (docs1[new_idx := this], new_idx))"

text \<open>
  The rest of the load pipeline: a forced encoding, the byte-order mark, the file. In
  \<^verbatim>\<open>handle_bom\<close> the mark is cut from data that begins with it, so the length does
  not fall below the length of the mark.
\<close>

definition handle_forced_encoding :: "environment \<Rightarrow> FileData \<Rightarrow> string \<Rightarrow> bool \<times> FileData" where
  "handle_forced_encoding env filedata forced_enc =
     (let converted =
            (if utils_str_equal (Some forced_enc) (Some ''UTF-8'')
             then (if \<not> g_utf8_validate env (fd_data filedata) (fd_len filedata) then None
                   else Some filedata)
             else (case encodings_convert_to_utf8_from_charset env (fd_data filedata)
                          (fd_len filedata) forced_enc of
                     None \<Rightarrow> None
                   | Some converted_text \<Rightarrow>
                       Some (filedata\<lparr>fd_data := converted_text,
                                       fd_len := strlen converted_text\<rparr>)))
      in case converted of
           None \<Rightarrow> (False, filedata)
         | Some fd1 \<Rightarrow>
             (True,
              fd1\<lparr>fd_bom := (fst (encodings_scan_unicode_bom env (fd_data fd1) (fd_size fd1))
                               = GEANY_ENCODING_UTF_8),
                  fd_enc := Some forced_enc\<rparr>))"

definition handle_bom :: "environment \<Rightarrow> FileData \<Rightarrow> FileData" where
  "handle_bom env filedata =
     (let bom_len = snd (encodings_scan_unicode_bom env (fd_data filedata) (fd_size filedata))
      in if bom_len = 0 then filedata
         else filedata\<lparr>fd_len := fd_len filedata - bom_len,
                        fd_data := take (fd_len filedata - bom_len) (drop bom_len (fd_data filedata))\<rparr>)"

definition load_text_file :: "environment \<Rightarrow> string \<Rightarrow> string \<Rightarrow> string option \<Rightarrow> FileData option" where
  "load_text_file env locale_filename utf8_filename forced_enc =
     (case g_stat env locale_filename of
        None \<Rightarrow> None
      | Some (st_mtime, st_size) \<Rightarrow>
          (case g_file_get_contents env locale_filename of
             None \<Rightarrow> None
           | Some contents \<Rightarrow>
               (let fd0 = \<lparr>fd_data = contents, fd_size = st_size, fd_len = strlen contents,
                           fd_enc = None, fd_bom = False, fd_mtime = st_mtime,
                           fd_readonly = False\<rparr>;
                    tmp_enc_idx = fst (encodings_scan_unicode_bom env contents st_size);
                    fd1 = (if fd_len fd0 \<noteq> fd_size fd0 \<and> fd_size fd0 \<noteq> 0 \<and>
                              (tmp_enc_idx = GEANY_ENCODING_UTF_8 \<or>
                               tmp_enc_idx = GEANY_ENCODING_UTF_7 \<or>
                               tmp_enc_idx = GEANY_ENCODING_NONE)
                           then fd0\<lparr>fd_readonly := True\<rparr> else fd0);
                    decoded =
                      (case forced_enc of
                         Some enc \<Rightarrow>
                           if utils_str_equal (Some enc)
                                (Some (encodings_charset env GEANY_ENCODING_NONE))
                           then (True, fd1\<lparr>fd_bom := False,
                                   fd_enc := Some (encodings_charset env GEANY_ENCODING_NONE)\<rparr>)
                           else handle_forced_encoding env fd1 enc
                       | None \<Rightarrow> handle_encoding env fd1)
                in if \<not> fst decoded then None
                   else if fd_bom (snd decoded) then Some (handle_bom env (snd decoded))
                   else Some (snd decoded))))"

text \<open>
  Modelled from the spec: \<^verbatim>\<open>setText\<close> and \<^verbatim>\<open>emptyUndoBuffer\<close> of the text buffer
  contract. Setting the text takes the C string up to its terminator and puts the caret
  at the start; emptying the undo buffer makes the present state the save point. The
  text of a load is set while undo collection is off, so it does not leave the save
  point.
\<close>

definition sci_empty_undo_buffer :: "ScintillaObject \<Rightarrow> ScintillaObject" where
  "sci_empty_undo_buffer sci = sci\<lparr>modified := False\<rparr>"

definition sci_set_text :: "ScintillaObject \<Rightarrow> string \<Rightarrow> ScintillaObject" where
  "sci_set_text sci s = sci\<lparr>buf := take (strlen s) s, anchor := 0, caret := 0\<rparr>"

text \<open>
  \<^verbatim>\<open>set_cursor_position\<close> with the command line options \<^verbatim>\<open>cl_options.goto_line\<close> and
  \<^verbatim>\<open>cl_options.goto_column\<close> unset (\<open>-1\<close>), as they are once the files of the command
  line are open.
\<close>

definition set_cursor_position :: "ScintillaObject \<Rightarrow> int \<Rightarrow> ScintillaObject" where
  "set_cursor_position sci pos = (if pos > 0 then sci_set_current_position sci pos else sci)"

definition document_set_filetype :: "Document \<Rightarrow> nat option \<Rightarrow> Document" where
  "document_set_filetype doc type =
     (case type of None \<Rightarrow> doc | Some t \<Rightarrow> doc\<lparr>file_type := Some t\<rparr>)"

definition set_indentation :: "environment \<Rightarrow> Document \<Rightarrow> Document" where
  "set_indentation env doc =
     (if filetype_is_make env (file_type doc) then doc\<lparr>use_tabs := True\<rparr>
      else if \<not> editor_prefs_detect_tab_mode env then doc\<lparr>use_tabs := editor_prefs_use_tabs env\<rparr>
      else (case doc_sci doc of
              None \<Rightarrow> doc
            | Some w \<Rightarrow> doc\<lparr>use_tabs := detect_use_tabs (editor_prefs_use_tabs env) w\<rparr>))"

text \<open>
  \<^verbatim>\<open>document_open_file_full\<close>, in three parts, because the function reaches itself
  through \<^verbatim>\<open>document_check_disk_status\<close> and \<^verbatim>\<open>document_reload_file\<close>: first the
  part after the look-up of an open document (the load and the update of the document),
  then the reload branch, and last, after \<^verbatim>\<open>document_check_disk_status\<close>, the
  function itself. The result is the returned document, as the index of its slot, and the
  list of documents.
\<close>

definition document_open_file_load ::
  "environment \<Rightarrow> Document list \<Rightarrow> nat option \<Rightarrow> string \<Rightarrow> string \<Rightarrow> int \<Rightarrow> bool \<Rightarrow> nat option
     \<Rightarrow> string option \<Rightarrow> nat option \<times> Document list" where
  "document_open_file_load env docs reload_doc utf8_filename locale_filename pos ro ft forced_enc =
     (let forced =
            (case file_prefs_default_open_encoding env of
               Some idx \<Rightarrow> if forced_enc = None then Some (encodings_charset env idx)
                           else forced_enc
             | None \<Rightarrow> forced_enc)
      in case load_text_file env locale_filename utf8_filename forced of
           None \<Rightarrow> (None, docs)
         | Some filedata \<Rightarrow>
             (case (case reload_doc of
                      None \<Rightarrow> document_create env docs (Some utf8_filename)
                    | Some i \<Rightarrow> (docs, i)) of
                (docs1, i) \<Rightarrow>
                  (let doc1 = on_sci (\<lambda>w. sci_set_text (sci_empty_undo_buffer w) (fd_data filedata))
                                (docs1 ! i);
                       doc2 = store_saved_encoding
                                (doc1\<lparr>mtime := fd_mtime filedata, encoding := fd_enc filedata,
                                      has_bom := fd_bom filedata\<rparr>);
                       doc3 = doc2\<lparr>readonly := (ro \<or> fd_readonly filedata)\<rparr>;
                       doc4 = on_sci (\<lambda>w. set_cursor_position w pos) doc3;
                       doc5 =
                         (if reload_doc = None then
                            (let d = doc4\<lparr>real_path :=
                                           get_real_path_from_utf8 env (file_name doc4)\<rparr>
                             in document_set_filetype d
                                  (if ft \<noteq> None then ft
                                   else filetypes_detect_from_file env (file_name d)))
                          else document_set_filetype
                                 ((document_undo_clear env doc4)\<lparr>file_type := None\<rparr>) ft);
                       doc6 = (if reload_doc \<noteq> None then doc5 else set_indentation env doc5)
                   in (Some i, docs1[i := document_set_text_changed doc6 False]))))"

definition document_open_file_reload ::
  "environment \<Rightarrow> Document list \<Rightarrow> nat \<Rightarrow> int \<Rightarrow> bool \<Rightarrow> nat option \<Rightarrow> string option
     \<Rightarrow> nat option \<times> Document list" where
  "document_open_file_reload env docs i pos ro ft forced_enc =
     (case file_name (docs ! i) of
        None \<Rightarrow> (None, docs)
      | Some utf8_filename \<Rightarrow>
          document_open_file_load env docs (Some i) utf8_filename
            (utils_get_locale_from_utf8 env utf8_filename) pos ro ft forced_enc)"

definition document_reload_file :: "environment \<Rightarrow> Document list \<Rightarrow> nat \<Rightarrow> string option \<Rightarrow> bool \<times> Document list" where
  "document_reload_file env docs i forced_enc =
     (let doc = docs ! i;
          pos = (case doc_sci doc of None \<Rightarrow> 0 | Some w \<Rightarrow> caret w)
      in case document_open_file_reload env docs i pos (readonly doc) (file_type doc) forced_enc of
           (new_doc, docs1) \<Rightarrow> (new_doc \<noteq> None, docs1))"

text \<open>
  \<^verbatim>\<open>document_check_disk_status\<close>. When the file is gone the document is marked
  changed and the user is asked whether to save it again; on yes the function runs the
  Save As dialog. \<^verbatim>\<open>dialogs_show_save_as\<close> is not among the files at hand: it saves
  the current document under a name of the user's choice, and is taken as a parameter
  that acts on the list of documents.
\<close>

definition document_check_disk_status :: "environment \<Rightarrow> Document list \<Rightarrow> nat \<Rightarrow> bool \<Rightarrow> bool \<times> Document list" where
  "document_check_disk_status env docs i force =
     (if file_prefs_disk_check_timeout env = 0 then (False, docs)
      else if real_path (docs ! i) = None then (False, docs)
      else if \<not> force \<and> last_check (docs ! i) > time_now env - file_prefs_disk_check_timeout env
      then (False, docs)
      else
        (let doc = (docs ! i)\<lparr>last_check := time_now env\<rparr>;
             docs1 = docs[i := doc];
             locale_filename =
               (case file_name doc of None \<Rightarrow> [] | Some u \<Rightarrow> utils_get_locale_from_utf8 env u)
         in case g_stat env locale_filename of
              None \<Rightarrow>
                (let docs2 = docs1[i := document_set_text_changed doc True]
                 in (False,
                     if dialogs_show_question_resave env then dialogs_show_save_as env docs2
                     else docs2))
            | Some (st_mtime, st_size) \<Rightarrow>
                if mtime doc > time_now env \<or> st_mtime > time_now env then (False, docs1)
                else if mtime doc < st_mtime then
                  (let docs2 = (if dialogs_show_question_reload env
                                then snd (document_reload_file env docs1 i None) else docs1)
                   in (True, docs2[i := (docs2 ! i)\<lparr>mtime := st_mtime\<rparr>]))
                else (False, docs1)))"

definition document_open_file_full ::
  "environment \<Rightarrow> Document list \<Rightarrow> nat option \<Rightarrow> string option \<Rightarrow> int \<Rightarrow> bool \<Rightarrow> nat option
     \<Rightarrow> string option \<Rightarrow> nat option \<times> Document list" where
  "document_open_file_full env docs doc filename pos ro ft forced_enc =
     (case doc of
        Some i \<Rightarrow> document_open_file_reload env docs i pos ro ft forced_enc
      | None \<Rightarrow>
          (case filename of
             None \<Rightarrow> (None, docs)
           | Some locale_filename \<Rightarrow>
               (let utf8_filename = utils_get_utf8_from_locale env locale_filename
                in case document_find_by_filename env docs (Some utf8_filename) of
                     Some i \<Rightarrow>
                       (let docs1 = snd (document_check_disk_status env docs i True)
                        in (Some i,
                            docs1[i := on_sci (\<lambda>w. set_cursor_position w pos) (docs1 ! i)]))
                   | None \<Rightarrow>
                       document_open_file_load env docs None utf8_filename locale_filename
                         pos ro ft forced_enc)))"

text \<open>
  \<^verbatim>\<open>document_open_file\<close> opens a file at position 0; \<^verbatim>\<open>document_open_files\<close> opens
  the files of a list one after the other.
\<close>

definition document_open_file ::
  "environment \<Rightarrow> Document list \<Rightarrow> string option \<Rightarrow> bool \<Rightarrow> nat option \<Rightarrow> string option
     \<Rightarrow> nat option \<times> Document list" where
  "document_open_file env docs locale_filename ro ft forced_enc =
     document_open_file_full env docs None locale_filename 0 ro ft forced_enc"

primrec document_open_files ::
  "environment \<Rightarrow> Document list \<Rightarrow> string list \<Rightarrow> bool \<Rightarrow> nat option \<Rightarrow> string option
     \<Rightarrow> Document list" where
  "document_open_files env docs [] ro ft forced_enc = docs"
| "document_open_files env docs (item # rest) ro ft forced_enc =
     document_open_files env (snd (document_open_file env docs (Some item) ro ft forced_enc))
       rest ro ft forced_enc"

text \<open>
  \<^verbatim>\<open>document_save_file_as\<close>: the document takes the new name, a document without a
  filetype gets the one detected for it, \<^verbatim>\<open>utils_replace_filename\<close> puts the name
  into the text, and the document is saved. \<^verbatim>\<open>FILETYPE_ID\<close> and
  \<^verbatim>\<open>utils_replace_filename\<close> are not among the files at hand and are parameters.
\<close>

definition document_save_file_as :: "environment \<Rightarrow> Document \<Rightarrow> string option \<Rightarrow> bool \<times> Document" where
  "document_save_file_as env doc utf8_fname =
     (let doc1 = (case utf8_fname of None \<Rightarrow> doc | Some n \<Rightarrow> doc\<lparr>file_name := Some n\<rparr>);
          doc2 = (if filetype_is_none env (file_type doc1)
                  then document_set_filetype doc1
                         (filetypes_detect_from_file env (file_name doc1))
                  else doc1);
          doc3 = utils_replace_filename env doc2
      in document_save_file env doc3 True)"

text \<open>
  An environment in which \<^verbatim>\<open>/tmp/a.txt\<close> is gone from the disk, and the user, asked
  by the disk check, saves the first document again under the name \<^verbatim>\<open>/tmp/b.txt\<close>.
\<close>

definition resave_env :: environment where
  "resave_env = writable_env\<lparr>
     g_stat := (\<lambda>s. if s = ''/tmp/a.txt'' then None else Some (7, 3)),
     dialogs_show_question_resave := True,
     dialogs_show_save_as :=
       (\<lambda>docs. docs[0 := snd (document_save_file_as writable_env (docs ! 0)
                                (Some ''/tmp/b.txt''))])\<rparr>"


definition registry_identity :: "Document list \<Rightarrow> (bool \<times> string option \<times> string option) list" where
  "registry_identity docs = map (\<lambda>d. (is_valid d, file_name d, real_path d)) docs"



section \<open>Properties of the indentation detection\<close>

lemma CH_TAB_neq_SPACE: "CH_TAB \<noteq> CH_SPACE"
  by (simp add: CH_TAB_def CH_SPACE_def)

lemma detect_use_tabs_loop_counts:
  "detect_use_tabs_loop sci line tabs spaces =
     (tabs + length (filter (starts_with_tab sci) [line .. sci_get_line_count sci - 1]),
      spaces + length (filter (starts_with_two_spaces sci) [line .. sci_get_line_count sci - 1]))"
proof (induction sci line tabs spaces rule: detect_use_tabs_loop.induct)
  case (1 sci line tabs spaces)
  note step = detect_use_tabs_loop.simps [of sci line tabs spaces]
  show ?case
  proof (cases "line < sci_get_line_count sci")
    case False
    then show ?thesis by (simp add: step)
  next
    case True
    then have up: "[line .. sci_get_line_count sci - 1] = line # [line + 1 .. sci_get_line_count sci - 1]"
      by (simp add: upto_rec1)
    show ?thesis
      using True "1.IH" CH_TAB_neq_SPACE
      by (simp add: step up Let_def starts_with_tab_def starts_with_two_spaces_def
               del: detect_use_tabs_loop.simps)
  qed
qed

text \<open>
  C7. The detection counts, over every line of the buffer, the lines whose first
  character is a tab and the lines that start with at least two spaces. With both counts
  zero it answers with the configured default; otherwise, with tabs as the default it
  answers spaces exactly when \<open>spaces > 2 * tabs\<close>, and with spaces as the default it
  answers tabs exactly when \<open>tabs > 2 * spaces\<close>.
\<close>

theorem detect_use_tabs_hysteresis:
  "detect_use_tabs use_tabs_pref sci =
     (if space_lines sci = 0 \<and> tab_lines sci = 0 then use_tabs_pref
      else if use_tabs_pref then \<not> (space_lines sci > 2 * tab_lines sci)
      else tab_lines sci > 2 * space_lines sci)"
proof -
  have "detect_use_tabs_loop sci 0 0 0 = (tab_lines sci, space_lines sci)"
    using detect_use_tabs_loop_counts [of sci 0 0 0]
    by (simp add: tab_lines_def space_lines_def line_numbers_def)
  then show ?thesis
    by (simp add: detect_use_tabs_def mult.commute)
qed

section \<open>Properties of undo and redo\<close>

lemma update_changed_state_composite:
  "changed (update_changed_state doc) = composite_changed doc"
  by (simp add: update_changed_state_def document_set_text_changed_def composite_changed_def
        utils_str_equal_def)

lemma update_changed_state_frame:
  "doc_sci (update_changed_state doc) = doc_sci doc"
  "has_bom (update_changed_state doc) = has_bom doc"
  "encoding (update_changed_state doc) = encoding doc"
  "saved_encoding (update_changed_state doc) = saved_encoding doc"
  by (simp_all add: update_changed_state_def document_set_text_changed_def)

lemma composite_changed_update:
  "composite_changed (update_changed_state doc) = composite_changed doc"
  by (simp add: composite_changed_def update_changed_state_frame)

text \<open>
  C8. After every \<^verbatim>\<open>document_undo\<close> and every \<^verbatim>\<open>document_redo\<close>, whichever
  branch ran (empty ledger with the native undo of the buffer, buffer edit marker,
  byte-order-mark toggle, charset change, or an unknown action type), the changed flag
  of the document equals: buffer modified, or byte-order mark different from the saved
  one, or charset different from the saved one, all read in the resulting document.
\<close>

theorem undo_redo_recompute_changed:
  "changed (document_undo sci_undo doc) = composite_changed (document_undo sci_undo doc) \<and>
   changed (document_redo sci_redo doc) = composite_changed (document_redo sci_redo doc)"
  by (simp add: document_undo_def document_redo_def update_changed_state_composite
        composite_changed_update)

theorem undo_redo_recompute_changed_witness:
  "changed (document_undo (\<lambda>w. w) sample_doc) = True \<and>
   has_bom (document_undo (\<lambda>w. w) sample_doc) = True \<and>
   changed (document_redo (\<lambda>w. w) sample_doc) = False"
  using undo_redo_recompute_changed [of "\<lambda>w. w" sample_doc "\<lambda>w. w"]
  by (simp add: composite_changed_def sci_is_modified_def document_undo_def document_redo_def
        update_changed_state_def document_set_text_changed_def document_redo_add_def
        document_undo_add_def sample_doc_def sample_sci_def UNDO_BOM_def UNDO_SCINTILLA_def
        UNDO_ENCODING_def GINT_TO_POINTER_def on_sci_def utils_str_equal_def)

section \<open>Properties of the encoding detection\<close>

lemma handle_encoding_bom_none:
  "fd_enc fd = None \<Longrightarrow> \<not> fd_bom fd \<Longrightarrow>
   fst (encodings_scan_unicode_bom env (fd_data fd) (fd_size fd)) = GEANY_ENCODING_NONE \<Longrightarrow>
   handle_encoding_bom env fd = fd"
  by (simp add: handle_encoding_bom_def)

lemma handle_encoding_bom_failed:
  "fd_enc fd = None \<Longrightarrow> \<not> fd_bom fd \<Longrightarrow>
   fst (encodings_scan_unicode_bom env (fd_data fd) (fd_size fd)) = idx \<Longrightarrow>
   idx \<noteq> GEANY_ENCODING_UTF_8 \<Longrightarrow>
   encodings_convert_to_utf8_from_charset env (fd_data fd) (fd_size fd) (encodings_charset env idx) = None \<Longrightarrow>
   handle_encoding_bom env fd = fd"
  by (cases fd) (simp add: handle_encoding_bom_def Let_def)

text \<open>
  C5. Detection follows the stated order on every input that \<^verbatim>\<open>load_text_file\<close> hands
  over (no charset and no byte-order mark recorded yet). A size of zero gives UTF-8 and
  no byte-order mark. A recognised byte-order mark gives its charset and the mark; for a
  charset other than UTF-8 the data is converted. When there is no mark, or that
  conversion fails, the result is that of the detection on the untouched file data (the
  mark and its charset are cleared): UTF-8 if the bytes validate, else the charset the
  heuristic detection finds. The function fails exactly when there is no usable mark,
  the bytes do not validate, and the heuristic detection fails too.
\<close>

theorem handle_encoding_order:
  "fd_enc fd = None \<Longrightarrow> \<not> fd_bom fd \<Longrightarrow>
   idx = fst (encodings_scan_unicode_bom env (fd_data fd) (fd_size fd)) \<Longrightarrow>
   conv = encodings_convert_to_utf8_from_charset env (fd_data fd) (fd_size fd) (encodings_charset env idx) \<Longrightarrow>
   (fd_size fd = 0 \<longrightarrow> handle_encoding env fd = (True, fd\<lparr>fd_enc := Some ''UTF-8''\<rparr>)) \<and>
   (fd_size fd \<noteq> 0 \<and> idx = GEANY_ENCODING_UTF_8 \<longrightarrow>
      handle_encoding env fd =
        (True, fd\<lparr>fd_enc := Some (encodings_charset env GEANY_ENCODING_UTF_8), fd_bom := True\<rparr>)) \<and>
   (fd_size fd \<noteq> 0 \<and> idx \<noteq> GEANY_ENCODING_NONE \<and> idx \<noteq> GEANY_ENCODING_UTF_8 \<longrightarrow>
      (\<forall>t. conv = Some t \<longrightarrow>
         handle_encoding env fd =
           (True, fd\<lparr>fd_enc := Some (encodings_charset env idx), fd_bom := True,
                     fd_data := t, fd_len := strlen t\<rparr>))) \<and>
   (fd_size fd \<noteq> 0 \<and> (idx = GEANY_ENCODING_NONE \<or> idx \<noteq> GEANY_ENCODING_UTF_8 \<and> conv = None) \<longrightarrow>
      handle_encoding env fd = handle_encoding_detect env fd \<and>
      (g_utf8_validate env (fd_data fd) (fd_len fd) \<longrightarrow>
         handle_encoding env fd = (True, fd\<lparr>fd_enc := Some ''UTF-8''\<rparr>)) \<and>
      (\<not> g_utf8_validate env (fd_data fd) (fd_len fd) \<longrightarrow>
         (case encodings_convert_to_utf8 env (fd_data fd) (fd_size fd) of
            None \<Rightarrow> handle_encoding env fd = (False, fd)
          | Some (t, e) \<Rightarrow>
              handle_encoding env fd =
                (True, fd\<lparr>fd_enc := Some e, fd_data := t, fd_len := strlen t\<rparr>)))) \<and>
   (fst (handle_encoding env fd) = False \<longleftrightarrow>
      fd_size fd \<noteq> 0 \<and> (idx = GEANY_ENCODING_NONE \<or> idx \<noteq> GEANY_ENCODING_UTF_8 \<and> conv = None) \<and>
      \<not> g_utf8_validate env (fd_data fd) (fd_len fd) \<and>
      encodings_convert_to_utf8 env (fd_data fd) (fd_size fd) = None)"
proof -
  assume a: "fd_enc fd = None" "\<not> fd_bom fd"
    and i: "idx = fst (encodings_scan_unicode_bom env (fd_data fd) (fd_size fd))"
    and c: "conv = encodings_convert_to_utf8_from_charset env (fd_data fd) (fd_size fd) (encodings_charset env idx)"
  have empty: "fd_size fd = 0 \<longrightarrow> handle_encoding env fd = (True, fd\<lparr>fd_enc := Some ''UTF-8''\<rparr>)"
    using a by (simp add: handle_encoding_def)
  have utf8: "fd_size fd \<noteq> 0 \<and> idx = GEANY_ENCODING_UTF_8 \<longrightarrow>
      handle_encoding env fd =
        (True, fd\<lparr>fd_enc := Some (encodings_charset env GEANY_ENCODING_UTF_8), fd_bom := True\<rparr>)"
    using a i by (simp add: handle_encoding_def handle_encoding_bom_def handle_encoding_detect_def)
  have other: "fd_size fd \<noteq> 0 \<and> idx \<noteq> GEANY_ENCODING_NONE \<and> idx \<noteq> GEANY_ENCODING_UTF_8 \<longrightarrow>
      (\<forall>t. conv = Some t \<longrightarrow>
         handle_encoding env fd =
           (True, fd\<lparr>fd_enc := Some (encodings_charset env idx), fd_bom := True,
                     fd_data := t, fd_len := strlen t\<rparr>))"
    using a i c by (auto simp: handle_encoding_def handle_encoding_bom_def handle_encoding_detect_def Let_def)
  have fall: "fd_size fd \<noteq> 0 \<and> (idx = GEANY_ENCODING_NONE \<or> idx \<noteq> GEANY_ENCODING_UTF_8 \<and> conv = None) \<longrightarrow>
      handle_encoding env fd = handle_encoding_detect env fd"
    using a i c handle_encoding_bom_none [of fd env] handle_encoding_bom_failed [of fd env idx]
    by (auto simp: handle_encoding_def)
  have det: "handle_encoding_detect env fd =
      (if g_utf8_validate env (fd_data fd) (fd_len fd) then (True, fd\<lparr>fd_enc := Some ''UTF-8''\<rparr>)
       else (case encodings_convert_to_utf8 env (fd_data fd) (fd_size fd) of
               None \<Rightarrow> (False, fd)
             | Some (t, e) \<Rightarrow> (True, fd\<lparr>fd_enc := Some e, fd_data := t, fd_len := strlen t\<rparr>)))"
    using a by (simp add: handle_encoding_detect_def)
  have hard: "fst (handle_encoding env fd) = False \<longleftrightarrow>
      fd_size fd \<noteq> 0 \<and> (idx = GEANY_ENCODING_NONE \<or> idx \<noteq> GEANY_ENCODING_UTF_8 \<and> conv = None) \<and>
      \<not> g_utf8_validate env (fd_data fd) (fd_len fd) \<and>
      encodings_convert_to_utf8 env (fd_data fd) (fd_size fd) = None"
  proof (cases "fd_size fd \<noteq> 0 \<and> (idx = GEANY_ENCODING_NONE \<or> idx \<noteq> GEANY_ENCODING_UTF_8 \<and> conv = None)")
    case True
    with fall have "handle_encoding env fd = handle_encoding_detect env fd" by blast
    with True show ?thesis by (auto simp: det split: option.splits)
  next
    case False
    then consider "fd_size fd = 0" | "fd_size fd \<noteq> 0" "idx = GEANY_ENCODING_UTF_8"
      | t where "fd_size fd \<noteq> 0" "idx \<noteq> GEANY_ENCODING_NONE" "idx \<noteq> GEANY_ENCODING_UTF_8" "conv = Some t"
      by (cases conv) auto
    then show ?thesis
    proof cases
      case 1 with empty False show ?thesis by simp
    next
      case 2 with utf8 False show ?thesis by simp
    next
      case 3 with other False show ?thesis by simp
    qed
  qed
  show ?thesis
    using empty utf8 other fall hard by (simp add: det split: option.splits)
qed

theorem handle_encoding_order_witness:
  "handle_encoding sample_env sample_filedata = (False, sample_filedata) \<and>
   fd_enc sample_filedata = None \<and> \<not> fd_bom sample_filedata \<and>
   fst (encodings_scan_unicode_bom sample_env (fd_data sample_filedata) (fd_size sample_filedata))
     = GEANY_ENCODING_OTHER 1"
  using handle_encoding_order [of sample_filedata "GEANY_ENCODING_OTHER 1" sample_env None]
  by (simp add: sample_env_def sample_filedata_def sample_scan_bom_def handle_encoding_def
        handle_encoding_detect_def handle_encoding_bom_def)

section \<open>Properties of saving\<close>

lemma on_sci_frame:
  "real_path (on_sci f doc) = real_path doc"
  "saved_encoding (on_sci f doc) = saved_encoding doc"
  "mtime (on_sci f doc) = mtime doc"
  "changed (on_sci f doc) = changed doc"
  "file_name (on_sci f doc) = file_name doc"
  "encoding (on_sci f doc) = encoding doc"
  "has_bom (on_sci f doc) = has_bom doc"
  "readonly (on_sci f doc) = readonly doc"
  "is_valid (on_sci f doc) = is_valid doc"
  by (simp_all add: on_sci_def)

lemma document_save_file_failed:
  "\<not> fst (document_save_file env doc force) \<Longrightarrow>
   snd (document_save_file env doc force) = doc \<or>
   snd (document_save_file env doc force) = presave_normalize env doc"
  by (auto simp: document_save_file_def Let_def split: if_splits option.splits)

text \<open>
  A failed conversion to the charset of the document, and an error number from
  \<^verbatim>\<open>write_data_to_disk\<close>, end an attempted save with \<^verbatim>\<open>FALSE\<close>; the document is
  then as the editor hooks before the save left it, and none of its fields has been
  written by \<^verbatim>\<open>document_save_file\<close> itself.
\<close>

lemma document_save_file_conversion_failure:
  assumes "save_attempted doc force"
    and "encoding (presave_normalize env doc) = Some enc"
    and "enc \<noteq> ''UTF-8''" and "enc \<noteq> encodings_charset env GEANY_ENCODING_NONE"
    and "g_convert_from_utf8 env (save_text_with_bom env (presave_normalize env doc)) enc
           = Inl conv_error"
  shows "document_save_file env doc force = (False, presave_normalize env doc)"
  using assms
  by (auto simp: document_save_file_def save_attempted_def save_encode_def
        save_convert_to_encoding_def utils_str_equal_def Let_def)

lemma document_save_file_write_error:
  assumes "save_attempted doc force"
    and "save_encode env (presave_normalize env doc)
           (save_text_with_bom env (presave_normalize env doc)) = Some data"
    and "write_data_to_disk env (presave_normalize env doc) data \<noteq> 0"
  shows "document_save_file env doc force = (False, presave_normalize env doc)"
  using assms by (auto simp: document_save_file_def save_attempted_def Let_def)

lemma document_save_file_conversion_failure_example:
  "document_save_file sample_env latin1_doc False = (False, latin1_doc)"
  by code_simp

lemma write_data_to_disk_ignores_fclose:
  "write_data_to_disk (env\<lparr>fclose_result := c\<rparr>) doc data = write_data_to_disk env doc data"
  by (simp add: write_data_to_disk_def Let_def split: option.splits prod.splits)

lemma presave_normalize_ignores_fclose:
  "presave_normalize (env\<lparr>fclose_result := c\<rparr>) doc = presave_normalize env doc"
  by (simp add: presave_normalize_def Let_def)

lemma save_encode_ignores_fclose:
  "save_encode (env\<lparr>fclose_result := c\<rparr>) doc data = save_encode env doc data"
  by (auto simp: save_encode_def save_convert_to_encoding_def split: option.splits)

lemma save_text_with_bom_ignores_fclose:
  "save_text_with_bom (env\<lparr>fclose_result := c\<rparr>) doc = save_text_with_bom env doc"
  by (simp add: save_text_with_bom_def)

lemma save_commit_ignores_fclose:
  "save_commit (env\<lparr>fclose_result := c\<rparr>) doc = save_commit env doc"
  by (simp add: save_commit_def get_real_path_from_utf8_def document_update_timestamp_def
        Let_def split: option.splits)

lemma document_save_file_writable_example:
  "fst (document_save_file writable_env unsaved_doc False) \<and>
   real_path (snd (document_save_file writable_env unsaved_doc False)) = Some ''/tmp/a.txt'' \<and>
   saved_encoding (snd (document_save_file writable_env unsaved_doc False)) =
     \<lparr>fe_encoding = Some ''UTF-8'', fe_has_bom = False\<rparr> \<and>
   mtime (snd (document_save_file writable_env unsaved_doc False)) = 7 \<and>
   \<not> sci_is_modified (doc_sci (snd (document_save_file writable_env unsaved_doc False)))"
  by code_simp

lemma unsaved_doc_fields:
  "real_path unsaved_doc = None \<and>
   saved_encoding unsaved_doc = \<lparr>fe_encoding = Some ''UTF-16LE'', fe_has_bom = True\<rparr> \<and>
   mtime unsaved_doc = 0 \<and> changed unsaved_doc \<and> sci_is_modified (doc_sci unsaved_doc) \<and>
   file_name unsaved_doc = Some ''/tmp/a.txt''"
  by code_simp

lemma short_write_example:
  "g_fopen_wb short_write_env (utils_get_locale_from_utf8 short_write_env ''/tmp/a.txt'') = None \<and>
   fwrite_result short_write_env (utils_get_locale_from_utf8 short_write_env ''/tmp/a.txt'') ''abc''
     = (1, 0) \<and>
   fst (document_save_file short_write_env unsaved_doc False) \<and>
   real_path (snd (document_save_file short_write_env unsaved_doc False)) = Some ''/tmp/a.txt''"
  by code_simp

text \<open>
  C6. A save that fails in the conversion, or with an error number from
  \<^verbatim>\<open>write_data_to_disk\<close>, returns \<^verbatim>\<open>FALSE\<close> and commits nothing. A write that fails
  when the file is closed is not seen: \<^verbatim>\<open>write_data_to_disk\<close> drops the result of
  \<^verbatim>\<open>fclose\<close>, which is where buffered bytes are written out, so what a save returns
  and does to the document is the same whatever \<^verbatim>\<open>fclose\<close> returns. And the error
  number of a short \<^verbatim>\<open>fwrite\<close> is \<^verbatim>\<open>errno\<close> even when that is \<open>0\<close>, whatever the
  number of bytes written. In both cases \<^verbatim>\<open>document_save_file\<close> returns \<^verbatim>\<open>TRUE\<close>
  and sets the real path, the saved encoding and the modification time and marks the
  buffer saved although the bytes are not on disk; the concrete runs, for the document
  \<open>unsaved_doc\<close>, follow the theorem.
\<close>

theorem document_save_file_unchecked_fclose:
  "document_save_file (env\<lparr>fclose_result := c\<rparr>) doc force = document_save_file env doc force \<and>
   (file_name doc = Some u \<and> g_fopen_wb env (utils_get_locale_from_utf8 env u) = None \<and>
    snd (fwrite_result env (utils_get_locale_from_utf8 env u) data) = 0 \<longrightarrow>
      write_data_to_disk env doc data = 0)"
proof (intro conjI impI)
  show "document_save_file (env\<lparr>fclose_result := c\<rparr>) doc force = document_save_file env doc force"
    unfolding document_save_file_def presave_normalize_ignores_fclose
      save_encode_ignores_fclose save_text_with_bom_ignores_fclose
      write_data_to_disk_ignores_fclose save_commit_ignores_fclose ..
next
  assume "file_name doc = Some u \<and> g_fopen_wb env (utils_get_locale_from_utf8 env u) = None \<and>
    snd (fwrite_result env (utils_get_locale_from_utf8 env u) data) = 0"
  then show "write_data_to_disk env doc data = 0"
    by (auto simp: write_data_to_disk_def Let_def split: prod.splits)
qed

theorem document_save_file_unchecked_fclose_witness:
  "fclose_result flush_fail_env ''/tmp/a.txt'' ''abc'' = - 1 \<and>
   fst (document_save_file flush_fail_env unsaved_doc False) \<and>
   real_path unsaved_doc = None \<and>
   real_path (snd (document_save_file flush_fail_env unsaved_doc False)) = Some ''/tmp/a.txt'' \<and>
   saved_encoding unsaved_doc = \<lparr>fe_encoding = Some ''UTF-16LE'', fe_has_bom = True\<rparr> \<and>
   saved_encoding (snd (document_save_file flush_fail_env unsaved_doc False)) =
     \<lparr>fe_encoding = Some ''UTF-8'', fe_has_bom = False\<rparr> \<and>
   mtime unsaved_doc = 0 \<and>
   mtime (snd (document_save_file flush_fail_env unsaved_doc False)) = 7 \<and>
   sci_is_modified (doc_sci unsaved_doc) \<and>
   \<not> sci_is_modified (doc_sci (snd (document_save_file flush_fail_env unsaved_doc False))) \<and>
   fwrite_result short_write_env ''/tmp/a.txt'' ''abc'' = (1, 0) \<and>
   write_data_to_disk short_write_env unsaved_doc ''abc'' = 0 \<and>
   fst (document_save_file short_write_env unsaved_doc False) \<and>
   real_path (snd (document_save_file short_write_env unsaved_doc False)) = Some ''/tmp/a.txt''"
proof -
  have c: "fclose_result flush_fail_env ''/tmp/a.txt'' ''abc'' = - 1"
    by (simp add: flush_fail_env_def)
  have l: "utils_get_locale_from_utf8 short_write_env ''/tmp/a.txt'' = ''/tmp/a.txt''"
    by (simp add: short_write_env_def sample_env_def)
  from document_save_file_unchecked_fclose
         [where env = writable_env and c = "\<lambda>s d. - 1" and doc = unsaved_doc and force = False
            and u = "''/tmp/a.txt''" and data = "''abc''"]
  have f: "document_save_file flush_fail_env unsaved_doc False =
           document_save_file writable_env unsaved_doc False"
    by (simp add: flush_fail_env_def)
  from document_save_file_unchecked_fclose
         [where env = short_write_env and c = "\<lambda>s d. - 1" and doc = unsaved_doc
            and force = False and u = "''/tmp/a.txt''" and data = "''abc''"]
       short_write_example unsaved_doc_fields
  have w: "write_data_to_disk short_write_env unsaved_doc ''abc'' = 0"
    by simp
  from c f w document_save_file_writable_example unsaved_doc_fields short_write_example l
  show ?thesis by simp
qed

section \<open>Properties of searching and replacing\<close>

lemma find_SomeD: "List.find P xs = Some x \<Longrightarrow> x \<in> set xs \<and> P x"
  by (auto simp: find_Some_iff)

lemma plain_find_SomeD:
  assumes "plain_find flags b lo hi pat = Some (s, e)"
  shows "\<exists>p. s = int p \<and> e = int p + int (length pat) \<and>
           ((max 0 (min lo (int (length b))) \<le> max 0 (min hi (int (length b))) \<and>
             List.find (\<lambda>p. int p + int (length pat) \<le> max 0 (min hi (int (length b))) \<and>
                          take (length pat) (drop p b) = pat)
               [nat (max 0 (min lo (int (length b)))) ..< Suc (nat (max 0 (min hi (int (length b)))))]
               = Some p) \<or>
            (\<not> max 0 (min lo (int (length b))) \<le> max 0 (min hi (int (length b))) \<and>
             List.find (\<lambda>p. int p + int (length pat) \<le> max 0 (min lo (int (length b))) \<and>
                          take (length pat) (drop p b) = pat)
               (rev [nat (max 0 (min hi (int (length b)))) ..< Suc (nat (max 0 (min lo (int (length b)))))])
               = Some p))"
  using assms
  by (simp only: plain_find_def Let_def split: if_splits option.splits)
     (simp_all only: option.inject prod.inject option.distinct simp_thms, blast+)

lemma plain_find_in_range: "finder_in_range plain_find"
  unfolding finder_in_range_def
proof (intro allI impI)
  fix flags :: int and b lo hi pat s e
  assume h: "plain_find flags b lo hi pat = Some (s, e)"
  define n where "n = int (length b)"
  define m where "m = int (length pat)"
  define lo' where "lo' = max 0 (min lo n)"
  define hi' where "hi' = max 0 (min hi n)"
  have n0: "0 \<le> n" and m0: "0 \<le> m" by (simp_all add: n_def m_def)
  have b1: "min (min lo hi) n \<le> lo'" "min (min lo hi) n \<le> hi'" "lo' \<le> n" "hi' \<le> n"
       "0 \<le> lo'" "0 \<le> hi'"
    using n0 by (auto simp: lo'_def hi'_def)
  from plain_find_SomeD [OF h] obtain p where se: "s = int p" "e = int p + m"
    and c: "(lo' \<le> hi' \<and>
             List.find (\<lambda>p. int p + m \<le> hi' \<and> take (length pat) (drop p b) = pat)
               [nat lo' ..< Suc (nat hi')] = Some p) \<or>
            (\<not> lo' \<le> hi' \<and>
             List.find (\<lambda>p. int p + m \<le> lo' \<and> take (length pat) (drop p b) = pat)
               (rev [nat hi' ..< Suc (nat lo')]) = Some p)"
    unfolding n_def m_def lo'_def hi'_def by blast
  from c have "(nat lo' \<le> p \<and> int p + m \<le> hi') \<or> (nat hi' \<le> p \<and> int p + m \<le> lo')"
    by (auto dest!: find_SomeD)
  then have "(lo' \<le> int p \<and> int p + m \<le> hi') \<or> (hi' \<le> int p \<and> int p + m \<le> lo')"
    by linarith
  then have "0 \<le> s \<and> s \<le> e \<and> e \<le> n \<and> min (min lo hi) n \<le> s"
    using se m0 b1 by linarith
  then show "0 \<le> s \<and> s \<le> e \<and> e \<le> int (length b) \<and> min (min lo hi) (int (length b)) \<le> s"
    by (simp add: n_def)
qed

lemma target_set_reads [simp]:
  "sci_get_char_at (sci_target_end (sci_target_start sci s) e) x = sci_get_char_at sci x"
  "tgt_end (sci_target_end (sci_target_start sci s) e) = e"
  "tgt_start (sci_target_end (sci_target_start sci s) e) = s"
  "buf (sci_target_end (sci_target_start sci s) e) = buf sci"
  by (simp_all add: sci_target_end_def sci_target_start_def sci_get_char_at_def sci_get_length_def)

lemma loop_no_match:
  "fnd flags (buf sci) cpMin end_pos find_text = None \<Longrightarrow>
   document_replace_range_loop fnd rex find_text replace_text flags sci cpMin end_pos count =
     Some (sci, cpMin, end_pos, count)"
  by (subst document_replace_range_loop.simps) (simp add: sci_find_text_def)

lemma loop_match:
  "fnd flags (buf sci) cpMin end_pos find_text = Some (s, e) \<Longrightarrow>
   document_replace_range_loop fnd rex find_text replace_text flags sci cpMin end_pos count =
     (if s = - 1 \<or> (e - s = 0 \<and> replace_text = []) \<or> e > end_pos
      then Some (sci, cpMin, end_pos, count)
      else if s = end_pos
      then Some (snd (replace_match rex sci s e replace_text flags), cpMin, end_pos, count + 1)
      else document_replace_range_loop fnd rex find_text replace_text flags
             (snd (replace_match rex sci s e replace_text flags))
             (next_search_start sci (snd (replace_match rex sci s e replace_text flags)) s e
                (fst (replace_match rex sci s e replace_text flags)))
             (end_pos + fst (replace_match rex sci s e replace_text flags) - (e - s))
             (count + 1))"
  apply (subst document_replace_range_loop.simps)
  apply (simp add: sci_find_text_def Let_def replace_match_def next_search_start_def
      case_prod_beta)
  done

lemma replace_match_length:
  assumes "0 \<le> s" "s \<le> e" "e \<le> sci_get_length sci"
  shows "sci_get_length (snd (replace_match rex sci s e replace_text flags)) =
           sci_get_length sci - (e - s) + fst (replace_match rex sci s e replace_text flags)"
  using assms
  by (simp add: replace_match_def sci_target_replace_def Let_def sci_get_length_def
        sci_target_end_def sci_target_start_def max_def)

lemma replace_match_nonneg: "0 \<le> fst (replace_match rex sci s e replace_text flags)"
  by (simp add: replace_match_def sci_target_replace_def Let_def)

lemma position_after_lower:
  "0 \<le> p \<Longrightarrow> min (p + 1) (sci_get_length sci) \<le> position_after sci p"
  by (simp add: position_after_def)

lemma next_search_start_progress:
  assumes "0 \<le> s" "s \<le> e" "e \<le> end_pos" "s \<noteq> end_pos" "end_pos \<le> sci_get_length sci"
    and len2: "sci_get_length sci2 = sci_get_length sci - (e - s) + rl" and "0 \<le> rl"
  shows "e + rl - (e - s) + (if e = s then 1 else 0) \<le> next_search_start sci sci2 s e rl"
proof (cases "e = s")
  case False
  with assms show ?thesis by (simp add: next_search_start_def Let_def)
next
  case True
  define start where "start = s + rl +
      (if sci_get_char_at sci e = CH_CR \<or> sci_get_char_at sci e = CH_LF then 1 else (0::int))"
  have st: "s + rl \<le> start" "0 \<le> start" using assms by (auto simp: start_def)
  have "min (start + 1) (sci_get_length sci2) \<le> position_after sci2 start"
    using st by (intro position_after_lower)
  moreover have "s + rl + 1 \<le> sci_get_length sci2" using assms True by simp
  ultimately have "s + rl + 1 \<le> position_after sci2 start" using st by linarith
  then show ?thesis using True by (simp add: next_search_start_def Let_def start_def)
qed

lemma document_replace_range_loop_terminates:
  assumes ok: "finder_in_range fnd"
  shows "end_pos \<le> sci_get_length sci \<Longrightarrow>
         \<exists>r. document_replace_range_loop fnd rex find_text replace_text flags sci cpMin end_pos count
               = Some r"
proof (induction "window_measure cpMin end_pos" arbitrary: sci cpMin end_pos count rule: less_induct)
  case less
  show ?case
  proof (cases "fnd flags (buf sci) cpMin end_pos find_text")
    case None
    then show ?thesis by (simp add: loop_no_match)
  next
    case (Some m)
    obtain s e where m: "m = (s, e)" by (cases m)
    with Some have f: "fnd flags (buf sci) cpMin end_pos find_text = Some (s, e)" by simp
    from ok f have r: "0 \<le> s" "s \<le> e" "e \<le> sci_get_length sci"
        "min (min cpMin end_pos) (sci_get_length sci) \<le> s"
      unfolding finder_in_range_def sci_get_length_def by blast+
    note lm = loop_match [where fnd = fnd and flags = flags and sci = sci and cpMin = cpMin
        and end_pos = end_pos and find_text = find_text and s = s and e = e, OF f]
    define rl where "rl = fst (replace_match rex sci s e replace_text flags)"
    define sci2 where "sci2 = snd (replace_match rex sci s e replace_text flags)"
    have rl0: "0 \<le> rl" by (simp add: rl_def replace_match_nonneg)
    have len2: "sci_get_length sci2 = sci_get_length sci - (e - s) + rl"
      unfolding sci2_def rl_def using r by (intro replace_match_length)
    show ?thesis
    proof (cases "s = - 1 \<or> (e - s = 0 \<and> replace_text = []) \<or> e > end_pos \<or> s = end_pos")
      case True
      then show ?thesis by (auto simp: lm)
    next
      case False
      then have c: "e \<le> end_pos" "s \<noteq> end_pos" by auto
      with r have fw: "cpMin \<le> s" using less.prems by linarith
      have prog: "e + rl - (e - s) + (if e = s then 1 else 0) \<le> next_search_start sci sci2 s e rl"
        using r c less.prems len2 rl0 by (intro next_search_start_progress)
      have "window_measure (next_search_start sci sci2 s e rl) (end_pos + rl - (e - s))
              < window_measure cpMin end_pos"
        using prog fw r c by (auto simp: window_measure_def split: if_splits)
      moreover have "end_pos + rl - (e - s) \<le> sci_get_length sci2"
        using len2 less.prems by simp
      ultimately have "\<exists>r. document_replace_range_loop fnd rex find_text replace_text flags sci2
          (next_search_start sci sci2 s e rl) (end_pos + rl - (e - s)) (count + 1) = Some r"
        by (rule less.hyps)
      then show ?thesis
        using False by (simp add: lm rl_def sci2_def)
    qed
  qed
qed

lemma pass_start_state_reads:
  "search_anchor (pass_start_state sci back) = search_origin sci back"
  "buf (pass_start_state sci back) = buf sci"
proof -
  show "buf (pass_start_state sci back) = buf sci"
    by (simp add: pass_start_state_def sci_set_search_anchor_def sci_goto_pos_def)
  show "search_anchor (pass_start_state sci back) = search_origin sci back"
  proof (cases "sci_get_selection_end sci - sci_get_selection_start sci > 0")
    case True
    then show ?thesis
      by (simp add: pass_start_state_def search_origin_def sci_set_search_anchor_def
            sci_goto_pos_def sci_get_selection_start_def [of "_\<lparr>anchor := _, caret := _\<rparr>"])
  next
    case False
    then show ?thesis
      by (simp add: pass_start_state_def search_origin_def sci_set_search_anchor_def)
  qed
qed

lemma find_text_pass_searches_from_origin:
  "find_text_pass fnd sci text flags back =
     (case fnd flags (buf sci) (search_origin sci back) (if back then 0 else sci_get_length sci) text of
        None \<Rightarrow> (- 1, pass_start_state sci back)
      | Some (s, e) \<Rightarrow> (s, (pass_start_state sci back)\<lparr>caret := s, anchor := e\<rparr>))"
proof -
  have "find_text_pass fnd sci text flags back =
      (if back then sci_search_prev fnd (pass_start_state sci back) flags text
       else sci_search_next fnd (pass_start_state sci back) flags text)"
    by (simp add: find_text_pass_def pass_start_state_def Let_def)
  then show ?thesis
    by (cases "back")
       (auto simp: sci_search_prev_def sci_search_next_def pass_start_state_reads
          sci_get_length_def split: option.splits)
qed

lemma entire_buffer_at_edge:
  "selection_in_buffer sci \<Longrightarrow>
   searched_entire_buffer sci (effective_backwards flags search_backwards) \<Longrightarrow>
   at_search_edge sci flags search_backwards"
  by (auto simp: selection_in_buffer_def searched_entire_buffer_def at_search_edge_def
        effective_backwards_def search_origin_def clamp_position_def
        sci_get_selection_start_def sci_get_selection_end_def Let_def split: if_splits)

lemma document_find_text_hit:
  "text \<noteq> [] \<Longrightarrow>
   fst (find_text_pass fnd sci text flags (effective_backwards flags search_backwards)) \<noteq> - 1 \<Longrightarrow>
   document_find_text fnd suppress dialog sci k text flags search_backwards =
     (fst (find_text_pass fnd sci text flags (effective_backwards flags search_backwards)),
      snd (find_text_pass fnd sci text flags (effective_backwards flags search_backwards)), k)"
  by (subst document_find_text.simps)
     (simp add: Let_def case_prod_beta effective_backwards_def)

lemma document_find_text_at_edge:
  "text \<noteq> [] \<Longrightarrow> at_search_edge sci flags search_backwards \<Longrightarrow>
   document_find_text fnd suppress dialog sci k text flags search_backwards =
     (fst (find_text_pass fnd sci text flags (effective_backwards flags search_backwards)),
      snd (find_text_pass fnd sci text flags (effective_backwards flags search_backwards)), k)"
  by (subst document_find_text.simps)
     (auto simp: Let_def case_prod_beta effective_backwards_def at_search_edge_def
        sci_get_length_def)

lemma effective_backwards_idem [simp]:
  "effective_backwards flags (effective_backwards flags b) = effective_backwards flags b"
  by (auto simp: effective_backwards_def)

lemma at_search_edge_after_wrap:
  "at_search_edge
     (sci_set_current_position sci
        (if effective_backwards flags b then sci_get_length sci else 0))
     flags (effective_backwards flags b)"
  by (simp add: at_search_edge_def Let_def effective_backwards_def sci_get_length_def
        clamp_position_def)

lemma document_find_text_after_wrap:
  assumes "text \<noteq> []"
  shows "document_find_text fnd suppress dialog
      (sci_set_current_position sci1 (if effective_backwards flags search_backwards then sci_get_length sci1 else 0))
      k' text flags (effective_backwards flags search_backwards) =
      (fst (find_text_pass fnd (sci_set_current_position sci1 (if effective_backwards flags search_backwards then sci_get_length sci1 else 0)) text flags (effective_backwards flags search_backwards)),
       snd (find_text_pass fnd (sci_set_current_position sci1 (if effective_backwards flags search_backwards then sci_get_length sci1 else 0)) text flags (effective_backwards flags search_backwards)), k')"
  by (rule trans [OF document_find_text_at_edge [OF assms at_search_edge_after_wrap]])
     simp

lemma document_find_text_miss:
  assumes "text \<noteq> []"
    and "fst (find_text_pass fnd sci text flags (effective_backwards flags search_backwards)) = - 1"
    and "\<not> at_search_edge sci flags search_backwards"
  shows "document_find_text fnd suppress dialog sci k text flags search_backwards =
      (if suppress \<or> dialog k then
         (case document_find_text fnd suppress dialog
                 (sci_set_current_position
                    (snd (find_text_pass fnd sci text flags (effective_backwards flags search_backwards)))
                    (if effective_backwards flags search_backwards
                     then sci_get_length
                            (snd (find_text_pass fnd sci text flags (effective_backwards flags search_backwards)))
                     else 0))
                 (if suppress then k else k + 1)
                 text flags (effective_backwards flags search_backwards) of
            (ret, sci2, k') \<Rightarrow>
              if ret = - 1 then (ret, sci_set_current_position sci2 (sci_get_selection_start sci), k')
              else (ret, sci2, k'))
       else (- 1, snd (find_text_pass fnd sci text flags (effective_backwards flags search_backwards)), k + 1))"
proof -
  have edge: "\<not> ((sci_get_selection_end sci = 0 \<and> \<not> effective_backwards flags search_backwards) \<or>
                 (sci_get_selection_end sci =
                    sci_get_length (snd (find_text_pass fnd sci text flags (effective_backwards flags search_backwards))) \<and>
                  effective_backwards flags search_backwards))"
    using assms(3) by (simp add: at_search_edge_def Let_def effective_backwards_def sci_get_length_def)
  show ?thesis
    apply (subst document_find_text.simps)
    apply (simp only: Let_def effective_backwards_def [symmetric] case_prod_beta assms(1,2) edge
             if_False if_True simp_thms)
    done
qed

lemma document_find_text_wrap:
  assumes "text \<noteq> []"
    and "fst (find_text_pass fnd sci text flags (effective_backwards flags search_backwards)) = - 1"
    and "\<not> at_search_edge sci flags search_backwards"
  shows "document_find_text fnd suppress dialog sci k text flags search_backwards =
     (if suppress \<or> dialog k then
        (if fst (wrapped_pass fnd sci text flags search_backwards) = - 1
         then (- 1,
               sci_set_current_position (snd (wrapped_pass fnd sci text flags search_backwards))
                 (sci_get_selection_start sci),
               if suppress then k else k + 1)
         else (fst (wrapped_pass fnd sci text flags search_backwards),
               snd (wrapped_pass fnd sci text flags search_backwards),
               if suppress then k else k + 1))
      else (- 1, snd (find_text_pass fnd sci text flags (effective_backwards flags search_backwards)),
            k + 1))"
  unfolding document_find_text_miss [OF assms]
    document_find_text_after_wrap [OF assms(1)] wrapped_pass_def Let_def
  by simp

lemma buf_sci_of: "buf (sci_of s) = s"
  by (simp add: sci_of_def)

lemma replace_aaa_loop:
  "document_replace_range_loop plain_find (\<lambda>b s e t. t) ''a'' '''' 0 (sci_of ''aaa'') 0 3 0 =
     Some ((sci_of '''')\<lparr>modified := True\<rparr>, 0, 0, 3)"
  by code_simp

lemma replace_foo_loop:
  "document_replace_range_loop plain_find (\<lambda>b s e t. t) ''foo'' ''baz'' 0 (sci_of ''foo bar foo'') 0 11 0 =
     Some ((sci_of ''baz bar baz'')\<lparr>tgt_start := 8, tgt_end := 11, modified := True\<rparr>, 11, 11, 2)"
  by code_simp

text \<open>
  C1. With a matcher that keeps its matches inside the buffer and the searched range, and
  a window that ends inside the buffer, \<^verbatim>\<open>document_replace_range\<close> returns: its loop
  terminates. The loop stops without replacing when the search finds nothing, when a
  match of length zero meets an empty replacement, and when the match ends after
  \<^verbatim>\<open>end\<close>; otherwise it replaces the match found first and searches on behind the
  replacement, or stops when the match began at \<^verbatim>\<open>end\<close>. Replacing \<open>a\<close> by the empty
  text in \<open>aaa\<close> over \<open>[0, 3)\<close> gives count 3 and the empty text; an empty
  pattern gives count 0 at once.
\<close>

theorem document_replace_range_terminates:
  "(finder_in_range fnd \<and> end_pos \<le> sci_get_length sci \<longrightarrow>
      (\<exists>r. document_replace_range fnd rex doc_readonly sci find_text replace_text flags
              start end_pos scroll_to_match = Some r)) \<and>
   (fnd flags (buf sci) cpMin end_pos find_text = None \<longrightarrow>
      document_replace_range_loop fnd rex find_text replace_text flags sci cpMin end_pos count =
        Some (sci, cpMin, end_pos, count)) \<and>
   (\<forall>s e. fnd flags (buf sci) cpMin end_pos find_text = Some (s, e) \<and>
          ((e - s = 0 \<and> replace_text = []) \<or> end_pos < e) \<longrightarrow>
      document_replace_range_loop fnd rex find_text replace_text flags sci cpMin end_pos count =
        Some (sci, cpMin, end_pos, count)) \<and>
   (\<forall>s e. fnd flags (buf sci) cpMin end_pos find_text = Some (s, e) \<and> s \<noteq> - 1 \<and>
          \<not> (e - s = 0 \<and> replace_text = []) \<and> e \<le> end_pos \<longrightarrow>
      document_replace_range_loop fnd rex find_text replace_text flags sci cpMin end_pos count =
        (if s = end_pos
         then Some (snd (replace_match rex sci s e replace_text flags), cpMin, end_pos, count + 1)
         else document_replace_range_loop fnd rex find_text replace_text flags
                (snd (replace_match rex sci s e replace_text flags))
                (next_search_start sci (snd (replace_match rex sci s e replace_text flags)) s e
                   (fst (replace_match rex sci s e replace_text flags)))
                (end_pos + fst (replace_match rex sci s e replace_text flags) - (e - s))
                (count + 1))) \<and>
   map_option (\<lambda>(n, new_range_end, w). (n, buf w))
     (document_replace_range plain_find (\<lambda>b s e t. t) False (sci_of ''aaa'') ''a'' '''' 0 0 3
        scroll_to_match) = Some (3, '''') \<and>
   document_replace_range plain_find (\<lambda>b s e t. t) False (sci_of ''aaa'') '''' '''' 0 0 3
     scroll_to_match = Some (0, - 1, sci_of ''aaa'')"
proof (intro conjI impI allI)
  assume "finder_in_range fnd \<and> end_pos \<le> sci_get_length sci"
  then obtain r where
    "document_replace_range_loop fnd rex find_text replace_text flags sci start end_pos 0 = Some r"
    using document_replace_range_loop_terminates by blast
  then show "\<exists>r. document_replace_range fnd rex doc_readonly sci find_text replace_text flags
              start end_pos scroll_to_match = Some r"
    by (cases r) (simp add: document_replace_range_def)
next
  assume "fnd flags (buf sci) cpMin end_pos find_text = None"
  then show "document_replace_range_loop fnd rex find_text replace_text flags sci cpMin end_pos count =
        Some (sci, cpMin, end_pos, count)"
    by (rule loop_no_match)
next
  fix s e
  assume a: "fnd flags (buf sci) cpMin end_pos find_text = Some (s, e) \<and>
          ((e - s = 0 \<and> replace_text = []) \<or> end_pos < e)"
  then have f: "fnd flags (buf sci) cpMin end_pos find_text = Some (s, e)" by simp
  show "document_replace_range_loop fnd rex find_text replace_text flags sci cpMin end_pos count =
        Some (sci, cpMin, end_pos, count)"
    using a
    by (simp add: loop_match [where fnd = fnd and flags = flags and sci = sci and cpMin = cpMin
          and end_pos = end_pos and find_text = find_text and s = s and e = e, OF f])
next
  fix s e
  assume a: "fnd flags (buf sci) cpMin end_pos find_text = Some (s, e) \<and> s \<noteq> - 1 \<and>
          \<not> (e - s = 0 \<and> replace_text = []) \<and> e \<le> end_pos"
  then have f: "fnd flags (buf sci) cpMin end_pos find_text = Some (s, e)" by simp
  from a have c: "\<not> (s = - 1 \<or> (e - s = 0 \<and> replace_text = []) \<or> end_pos < e)" by auto
  show "document_replace_range_loop fnd rex find_text replace_text flags sci cpMin end_pos count =
        (if s = end_pos
         then Some (snd (replace_match rex sci s e replace_text flags), cpMin, end_pos, count + 1)
         else document_replace_range_loop fnd rex find_text replace_text flags
                (snd (replace_match rex sci s e replace_text flags))
                (next_search_start sci (snd (replace_match rex sci s e replace_text flags)) s e
                   (fst (replace_match rex sci s e replace_text flags)))
                (end_pos + fst (replace_match rex sci s e replace_text flags) - (e - s))
                (count + 1))"
    by (simp only: loop_match [where fnd = fnd and flags = flags and sci = sci and cpMin = cpMin
          and end_pos = end_pos and find_text = find_text and s = s and e = e, OF f] c if_False)
next
  show "map_option (\<lambda>(n, new_range_end, w). (n, buf w))
     (document_replace_range plain_find (\<lambda>b s e t. t) False (sci_of ''aaa'') ''a'' '''' 0 0 3
        scroll_to_match) = Some (3, '''')"
    by (simp add: document_replace_range_def replace_aaa_loop sci_goto_pos_def buf_sci_of)
next
  show "document_replace_range plain_find (\<lambda>b s e t. t) False (sci_of ''aaa'') '''' '''' 0 0 3
     scroll_to_match = Some (0, - 1, sci_of ''aaa'')"
    by (simp add: document_replace_range_def)
qed

theorem document_replace_range_terminates_witness:
  "finder_in_range plain_find \<and>
   11 \<le> sci_get_length (sci_of ''foo bar foo'') \<and>
   (\<exists>r. document_replace_range plain_find (\<lambda>b s e t. t) False (sci_of ''foo bar foo'')
           ''foo'' ''baz'' 0 0 11 False = Some r) \<and>
   document_replace_range plain_find (\<lambda>b s e t. t) False (sci_of ''foo bar foo'')
           ''foo'' ''baz'' 0 0 11 False =
     Some (2, 11, (sci_of ''baz bar baz'')\<lparr>tgt_start := 8, tgt_end := 11, modified := True\<rparr>)"
proof -
  have len: "11 \<le> sci_get_length (sci_of ''foo bar foo'')"
    by (simp add: sci_of_def sci_get_length_def)
  have res: "document_replace_range plain_find (\<lambda>b s e t. t) False (sci_of ''foo bar foo'')
           ''foo'' ''baz'' 0 0 11 False =
     Some (2, 11, (sci_of ''baz bar baz'')\<lparr>tgt_start := 8, tgt_end := 11, modified := True\<rparr>)"
    by (simp add: document_replace_range_def replace_foo_loop)
  from document_replace_range_terminates [where fnd = plain_find and end_pos = 11
      and sci = "sci_of ''foo bar foo''" and rex = "\<lambda>b s e t. t" and doc_readonly = False
      and find_text = "''foo''" and replace_text = "''baz''" and flags = 0 and start = 0
      and scroll_to_match = False]
    plain_find_in_range len
  have "\<exists>r. document_replace_range plain_find (\<lambda>b s e t. t) False (sci_of ''foo bar foo'')
           ''foo'' ''baz'' 0 0 11 False = Some r"
    by blast
  with plain_find_in_range len res show ?thesis by blast
qed

text \<open>
  C10. For a read-only document, and for an empty pattern, \<^verbatim>\<open>document_replace_range\<close>
  returns the count 0 (and \<open>-1\<close> as the new end of the range) and leaves the widget, and
  so the text of the buffer, as it was: the guard stands in the function itself.
\<close>

theorem document_replace_range_guard:
  "doc_readonly \<or> find_text = [] \<Longrightarrow>
   document_replace_range fnd rex doc_readonly sci find_text replace_text flags start end_pos
     scroll_to_match = Some (0, - 1, sci)"
  by (auto simp: document_replace_range_def)

theorem document_replace_range_guard_witness:
  "document_replace_range plain_find (\<lambda>b s e t. t) True (sci_of ''aaa'') ''a'' ''b'' 0 0 3 True =
     Some (0, - 1, sci_of ''aaa'') \<and>
   document_replace_range plain_find (\<lambda>b s e t. t) False (sci_of ''aaa'') ''a'' ''b'' 0 0 3 True \<noteq>
     Some (0, - 1, sci_of ''aaa'')"
proof -
  have "document_replace_range_loop plain_find (\<lambda>b s e t. t) ''a'' ''b'' 0 (sci_of ''aaa'') 0 3 0 =
     Some ((sci_of ''bbb'')\<lparr>tgt_start := 2, tgt_end := 3, modified := True\<rparr>, 3, 3, 3)"
    by code_simp
  then show ?thesis
    using document_replace_range_guard [of True "''a''" plain_find "\<lambda>b s e t. t" "sci_of ''aaa''"
        "''b''" 0 0 3 True]
    by (simp add: document_replace_range_def)
qed

lemma buf_wrapped_pass [simp]:
  "buf (snd (wrapped_pass fnd sci text flags search_backwards)) = buf sci"
  by (simp add: wrapped_pass_def Let_def)

lemma document_find_text_empty:
  "document_find_text fnd suppress dialog sci k [] flags search_backwards = (- 1, sci, k)"
  by (subst document_find_text.simps) simp

lemma document_find_text_result:
  assumes "text \<noteq> []"
  shows "document_find_text fnd suppress dialog sci k text flags search_backwards =
     (if fst (find_text_pass fnd sci text flags (effective_backwards flags search_backwards)) \<noteq> - 1
         \<or> at_search_edge sci flags search_backwards
      then (fst (find_text_pass fnd sci text flags (effective_backwards flags search_backwards)),
            snd (find_text_pass fnd sci text flags (effective_backwards flags search_backwards)), k)
      else if suppress \<or> dialog k then
        (if fst (wrapped_pass fnd sci text flags search_backwards) = - 1
         then (- 1,
               sci_set_current_position (snd (wrapped_pass fnd sci text flags search_backwards))
                 (sci_get_selection_start sci),
               if suppress then k else k + 1)
         else (fst (wrapped_pass fnd sci text flags search_backwards),
               snd (wrapped_pass fnd sci text flags search_backwards),
               if suppress then k else k + 1))
      else (- 1, snd (find_text_pass fnd sci text flags (effective_backwards flags search_backwards)),
            k + 1))"
proof (cases "fst (find_text_pass fnd sci text flags (effective_backwards flags search_backwards)) \<noteq> - 1")
  case True
  then show ?thesis using document_find_text_hit [OF assms True] by simp
next
  case miss: False
  show ?thesis
  proof (cases "at_search_edge sci flags search_backwards")
    case True
    then show ?thesis using document_find_text_at_edge [OF assms True] by simp
  next
    case False
    from miss have m: "fst (find_text_pass fnd sci text flags
        (effective_backwards flags search_backwards)) = - 1" by simp
    show ?thesis
      using document_find_text_wrap [OF assms m False, of suppress dialog k] miss False
      by simp
  qed
qed

lemma buf_document_find_text:
  "buf (fst (snd (document_find_text fnd suppress dialog sci k text flags search_backwards))) = buf sci"
proof (cases "text = []")
  case True
  then show ?thesis by (simp add: document_find_text_empty)
next
  case False
  show ?thesis
    by (simp add: document_find_text_result [OF False])
qed

lemma document_find_text_questions:
  "snd (snd (document_find_text fnd suppress dialog sci k text flags search_backwards)) \<le> k + 1"
proof (cases "text = []")
  case True
  then show ?thesis by (simp add: document_find_text_empty)
next
  case False
  show ?thesis
    by (simp add: document_find_text_result [OF False])
qed

lemma search_origin_after_wrap:
  "search_origin (sci_set_current_position sci1 p) b = clamp_position sci1 p"
  by (simp add: search_origin_def)

lemma wrapped_pass_searches_whole_buffer:
  "fst (wrapped_pass fnd sci text flags search_backwards) =
     (case fnd flags (buf sci)
             (if effective_backwards flags search_backwards then sci_get_length sci else 0)
             (if effective_backwards flags search_backwards then 0 else sci_get_length sci) text of
        None \<Rightarrow> - 1
      | Some (s, e) \<Rightarrow> s)"
proof -
  define b where "b = effective_backwards flags search_backwards"
  define sci1 where "sci1 = snd (find_text_pass fnd sci text flags b)"
  define sci4 where "sci4 = sci_set_current_position sci1 (if b then sci_get_length sci1 else 0)"
  have b1: "buf sci1 = buf sci" by (simp add: sci1_def)
  have l1: "sci_get_length sci1 = sci_get_length sci" by (simp add: sci_get_length_def b1)
  have b4: "buf sci4 = buf sci" by (simp add: sci4_def b1)
  have l4: "sci_get_length sci4 = sci_get_length sci" by (simp add: sci_get_length_def b4)
  have o4: "search_origin sci4 b = (if b then sci_get_length sci else 0)"
    by (simp add: sci4_def search_origin_after_wrap l1 [symmetric])
  have w: "wrapped_pass fnd sci text flags search_backwards = find_text_pass fnd sci4 text flags b"
    by (simp add: wrapped_pass_def Let_def sci4_def sci1_def b_def)
  have "fst (find_text_pass fnd sci4 text flags b) =
      (case fnd flags (buf sci) (if b then sci_get_length sci else 0)
              (if b then 0 else sci_get_length sci) text of
         None \<Rightarrow> - 1
       | Some (s, e) \<Rightarrow> s)"
    by (simp add: find_text_pass_searches_from_origin [of fnd sci4 "text" flags b] b4 l4 o4
          split: option.splits)
  then show ?thesis
    unfolding w b_def .
qed

lemma find_x_in_xyz:
  "document_find_text plain_find False (\<lambda>n. True) sci_xyz_at_2 0 ''x'' 0 False =
     (0, (sci_of ''xyz'')\<lparr>anchor := 1, caret := 0\<rparr>, 1)"
  by code_simp

lemma find_q_in_xyz:
  "document_find_text plain_find False (\<lambda>n. True) (sci_of ''xyz'') 0 ''q'' 0 False =
     (- 1, sci_of ''xyz'', 0)"
  by code_simp

text \<open>
  The passes of \<^verbatim>\<open>document_find_text\<close> for a non-empty search text, with the test
  of the code for giving up (\<open>at_search_edge\<close>): a pass that hits returns the match; a
  pass that misses at the edge returns \<open>-1\<close> with no question; a pass that misses
  elsewhere and may wrap is followed by one pass over the whole buffer from the opposite
  edge, and by no further pass. At most one question is asked.
\<close>

lemma document_find_text_passes:
  "text \<noteq> [] \<Longrightarrow>
   effback = effective_backwards flags search_backwards \<Longrightarrow>
   pass = find_text_pass fnd sci text flags effback \<Longrightarrow>
   again = wrapped_pass fnd sci text flags search_backwards \<Longrightarrow>
   res = document_find_text fnd suppress dialog sci k text flags search_backwards \<Longrightarrow>
   (fst pass \<noteq> - 1 \<longrightarrow> res = (fst pass, snd pass, k)) \<and>
   (fst pass = - 1 \<and> selection_in_buffer sci \<and> searched_entire_buffer sci effback \<longrightarrow>
      res = (- 1, snd pass, k)) \<and>
   (fst pass = - 1 \<and> at_search_edge sci flags search_backwards \<longrightarrow> res = (- 1, snd pass, k)) \<and>
   (fst pass = - 1 \<and> \<not> at_search_edge sci flags search_backwards \<and> (suppress \<or> dialog k) \<longrightarrow>
      res = (fst again,
             if fst again = - 1
             then sci_set_current_position (snd again) (sci_get_selection_start sci)
             else snd again,
             if suppress then k else k + 1)) \<and>
   (fst pass = - 1 \<and> \<not> at_search_edge sci flags search_backwards \<and> \<not> suppress \<and> \<not> dialog k \<longrightarrow>
      res = (- 1, snd pass, k + 1)) \<and>
   fst again =
     (case fnd flags (buf sci) (if effback then sci_get_length sci else 0)
             (if effback then 0 else sci_get_length sci) text of
        None \<Rightarrow> - 1
      | Some (s, e) \<Rightarrow> s) \<and>
   snd (snd res) \<le> k + 1"
proof -
  assume t: "text \<noteq> []" and e: "effback = effective_backwards flags search_backwards"
    and p: "pass = find_text_pass fnd sci text flags effback"
    and a: "again = wrapped_pass fnd sci text flags search_backwards"
    and r: "res = document_find_text fnd suppress dialog sci k text flags search_backwards"
  note res = document_find_text_result [OF t, of fnd suppress dialog sci k flags search_backwards]
  have edge: "selection_in_buffer sci \<and> searched_entire_buffer sci effback \<longrightarrow>
      at_search_edge sci flags search_backwards"
    using entire_buffer_at_edge [of sci flags search_backwards] e by simp
  have 1: "fst pass \<noteq> - 1 \<longrightarrow> res = (fst pass, snd pass, k)"
    unfolding r res p e by simp
  have 3: "fst pass = - 1 \<and> at_search_edge sci flags search_backwards \<longrightarrow> res = (- 1, snd pass, k)"
    unfolding r res p e by simp
  have 2: "fst pass = - 1 \<and> selection_in_buffer sci \<and> searched_entire_buffer sci effback \<longrightarrow>
      res = (- 1, snd pass, k)"
    using 3 edge by blast
  have 4: "fst pass = - 1 \<and> \<not> at_search_edge sci flags search_backwards \<and> (suppress \<or> dialog k) \<longrightarrow>
      res = (fst again,
             if fst again = - 1
             then sci_set_current_position (snd again) (sci_get_selection_start sci)
             else snd again,
             if suppress then k else k + 1)"
    unfolding r res p e a by simp
  have 5: "fst pass = - 1 \<and> \<not> at_search_edge sci flags search_backwards \<and> \<not> suppress \<and> \<not> dialog k \<longrightarrow>
      res = (- 1, snd pass, k + 1)"
    unfolding r res p e by simp
  have 6: "fst again =
     (case fnd flags (buf sci) (if effback then sci_get_length sci else 0)
             (if effback then 0 else sci_get_length sci) text of
        None \<Rightarrow> - 1
      | Some (s, e) \<Rightarrow> s)"
    unfolding a e by (rule wrapped_pass_searches_whole_buffer)
  have 7: "snd (snd res) \<le> k + 1"
    unfolding r by (rule document_find_text_questions)
  from 1 2 3 4 5 6 7 show ?thesis by blast
qed

lemma find_ab_in_xyab:
  "fst (find_text_pass plain_find sci_xyab_sel_ab ''ab'' 0 True) = - 1 \<and>
   snd (find_text_pass plain_find sci_xyab_sel_ab ''ab'' 0 True) =
     (sci_of ''xyab'')\<lparr>anchor := 2, caret := 2, search_anchor := 2\<rparr> \<and>
   sci_get_selection_start sci_xyab_sel_ab = 2 \<and>
   sci_get_selection_end sci_xyab_sel_ab = 4 \<and>
   sci_get_length sci_xyab_sel_ab = 4 \<and>
   \<not> regexp_flag 0 \<and>
   fst (wrapped_pass plain_find sci_xyab_sel_ab ''ab'' 0 True) = 2"
  by code_simp

lemma find_ab_in_xyab_sel_a:
  "document_find_text plain_find False (\<lambda>n. True) sci_xyab_sel_a 0 ''ab'' 0 True =
     (2, (sci_of ''xyab'')\<lparr>anchor := 4, caret := 2, search_anchor := 4\<rparr>, 1)"
  by code_simp

text \<open>
  C3. The claim does not hold of a backward search that starts from a selection ending
  at the end of the buffer. The code gives up when the selection \<^emph>\<open>end\<close> is the length
  of the buffer, but a backward search starts at the selection \<^emph>\<open>start\<close>: the pass has
  searched only the part of the buffer before the selection, not the entire buffer, and
  its miss returns \<open>-1\<close> at once, with no question asked and no restart from the end of
  the buffer. The concrete run follows the theorem: in \<open>xyab\<close> with \<open>ab\<close> selected,
  the backward search for \<open>ab\<close> searches \<open>[0, 2)\<close> and gives up, where the restart
  would have found the match at 2; with the selection one character shorter the same
  miss is followed by the question and the restart, which finds the match.
\<close>

theorem document_find_text_backward_gives_up:
  assumes "pat \<noteq> []" and "\<not> regexp_flag flags"
    and "0 \<le> sci_get_selection_start sci"
    and "sci_get_selection_start sci < sci_get_selection_end sci"
    and "sci_get_selection_end sci = sci_get_length sci"
    and "fst (find_text_pass fnd sci pat flags True) = - 1"
  shows "search_origin sci True = sci_get_selection_start sci \<and>
         \<not> searched_entire_buffer sci True \<and>
         document_find_text fnd suppress dialog sci k pat flags True =
           (- 1, snd (find_text_pass fnd sci pat flags True), k)"
proof (intro conjI)
  from assms(3-5) show o: "search_origin sci True = sci_get_selection_start sci"
    by (simp add: search_origin_def clamp_position_def)
  from assms(4,5) show "\<not> searched_entire_buffer sci True"
    by (simp add: searched_entire_buffer_def o)
  have e: "effective_backwards flags True" using assms(2) by (simp add: effective_backwards_def)
  have "at_search_edge sci flags True"
    using assms(2,5) by (simp add: at_search_edge_def Let_def)
  from document_find_text_at_edge [OF assms(1) this, of fnd suppress dialog k] e assms(6)
  show "document_find_text fnd suppress dialog sci k pat flags True =
           (- 1, snd (find_text_pass fnd sci pat flags True), k)"
    by simp
qed

theorem document_find_text_backward_gives_up_witness:
  "sci_get_selection_start sci_xyab_sel_ab = 2 \<and>
   sci_get_selection_end sci_xyab_sel_ab = 4 \<and>
   sci_get_length sci_xyab_sel_ab = 4 \<and>
   search_origin sci_xyab_sel_ab True = 2 \<and>
   \<not> searched_entire_buffer sci_xyab_sel_ab True \<and>
   fst (find_text_pass plain_find sci_xyab_sel_ab ''ab'' 0 True) = - 1 \<and>
   document_find_text plain_find False (\<lambda>n. True) sci_xyab_sel_ab 0 ''ab'' 0 True =
     (- 1, (sci_of ''xyab'')\<lparr>anchor := 2, caret := 2, search_anchor := 2\<rparr>, 0) \<and>
   fst (wrapped_pass plain_find sci_xyab_sel_ab ''ab'' 0 True) = 2 \<and>
   document_find_text plain_find False (\<lambda>n. True) sci_xyab_sel_a 0 ''ab'' 0 True =
     (2, (sci_of ''xyab'')\<lparr>anchor := 4, caret := 2, search_anchor := 4\<rparr>, 1)"
proof -
  have t: "''ab'' \<noteq> []" by simp
  note f = find_ab_in_xyab
  have s0: "0 \<le> sci_get_selection_start sci_xyab_sel_ab"
    and s1: "sci_get_selection_start sci_xyab_sel_ab < sci_get_selection_end sci_xyab_sel_ab"
    and s2: "sci_get_selection_end sci_xyab_sel_ab = sci_get_length sci_xyab_sel_ab"
    and r: "\<not> regexp_flag 0"
    and m: "fst (find_text_pass plain_find sci_xyab_sel_ab ''ab'' 0 True) = - 1"
    using f by simp_all
  from document_find_text_backward_gives_up [OF t r s0 s1 s2 m, of False "\<lambda>n. True" 0]
       f find_ab_in_xyab_sel_a
  show ?thesis by simp
qed

lemma replace_abc_find:
  "document_find_text plain_find True (\<lambda>n. True) (sci_goto_pos sci_abcabc_sel_ab 0) 0 ''abc'' 0 False =
     (0, (sci_of ''abcabc'')\<lparr>anchor := 3, caret := 0\<rparr>, 0)"
  by code_simp

lemma replace_abc_result:
  "document_replace_text plain_find (\<lambda>b s e t. t) True (\<lambda>n. True) sci_abcabc_sel_ab 0
       ''abc'' ''X'' 0 False =
     (0, (sci_of ''Xabc'')\<lparr>anchor := 0, caret := 1, tgt_end := 1, modified := True\<rparr>, 0)"
  by code_simp

text \<open>
  C4, as the claim states it, fails: in \<open>abcabc\<close> with \<open>ab\<close> selected, a replace of
  \<open>abc\<close> by \<open>X\<close> finds the match \<open>[0, 3)\<close>, which is not the selection \<open>[0, 2)\<close>,
  and replaces it all the same, because the match starts where the selection starts.
\<close>

theorem document_replace_text_counterexample:
  "sci_get_selection_start sci_abcabc_sel_ab = 0 \<and>
   sci_get_selection_end sci_abcabc_sel_ab = 2 \<and>
   plain_find 0 (buf sci_abcabc_sel_ab) 0 6 ''abc'' = Some (0, 3) \<and>
   fst (document_replace_text plain_find (\<lambda>b s e t. t) True (\<lambda>n. True) sci_abcabc_sel_ab 0
          ''abc'' ''X'' 0 False) = 0 \<and>
   buf (fst (snd (document_replace_text plain_find (\<lambda>b s e t. t) True (\<lambda>n. True)
          sci_abcabc_sel_ab 0 ''abc'' ''X'' 0 False))) = ''Xabc''"
proof -
  have "sci_get_selection_start sci_abcabc_sel_ab = 0" "sci_get_selection_end sci_abcabc_sel_ab = 2"
    by (simp_all add: sci_abcabc_sel_ab_def sci_get_selection_start_def sci_get_selection_end_def
          sci_of_def)
  moreover have "plain_find 0 (buf sci_abcabc_sel_ab) 0 6 ''abc'' = Some (0, 3)"
    by code_simp
  ultimately show ?thesis
    by (simp add: replace_abc_result buf_sci_of)
qed

text \<open>
  C4, amended. With a non-empty pattern: without a selection the function only runs the
  find and returns \<open>-1\<close>. With a selection it moves the caret to the start of the
  selection (to its end for a backward search), runs the find, and replaces only if the
  match starts at the start of the selection; the match is then replaced through the
  target and the replacement is selected. If the match starts elsewhere, or there is
  none, it returns \<open>-1\<close>. Whenever it returns \<open>-1\<close> the text of the buffer is unchanged.
\<close>

theorem document_replace_text_at_selection_start:
  "find_text \<noteq> [] \<Longrightarrow>
   effback = effective_backwards flags search_backwards \<Longrightarrow>
   res = document_replace_text fnd rex suppress dialog sci k find_text replace_text flags
           search_backwards \<Longrightarrow>
   found = document_find_text fnd suppress dialog
             (sci_goto_pos sci (if effback then sci_get_selection_end sci
                                else sci_get_selection_start sci))
             k find_text flags effback \<Longrightarrow>
   (sci_get_selection_end sci = sci_get_selection_start sci \<longrightarrow>
      res = (- 1, snd (document_find_text fnd suppress dialog sci k find_text flags effback))) \<and>
   (sci_get_selection_end sci \<noteq> sci_get_selection_start sci \<and>
    fst found \<noteq> sci_get_selection_start sci \<longrightarrow> res = (- 1, snd found)) \<and>
   (sci_get_selection_end sci \<noteq> sci_get_selection_start sci \<and>
    fst found = sci_get_selection_start sci \<and> fst found \<noteq> - 1 \<longrightarrow>
      res = (fst found,
             sci_set_selection_end
               (sci_set_selection_start
                  (snd (sci_target_replace rex (sci_target_from_selection (fst (snd found)))
                          replace_text (regexp_flag flags)))
                  (fst found))
               (fst found +
                fst (sci_target_replace rex (sci_target_from_selection (fst (snd found)))
                       replace_text (regexp_flag flags))),
             snd (snd found))) \<and>
   (fst res \<noteq> - 1 \<longrightarrow>
      sci_get_selection_end sci \<noteq> sci_get_selection_start sci \<and>
      fst found = sci_get_selection_start sci \<and> fst res = sci_get_selection_start sci) \<and>
   (fst res = - 1 \<longrightarrow> buf (fst (snd res)) = buf sci)"
proof -
  assume t: "find_text \<noteq> []" and e: "effback = effective_backwards flags search_backwards"
    and r: "res = document_replace_text fnd rex suppress dialog sci k find_text replace_text flags
           search_backwards"
    and f: "found = document_find_text fnd suppress dialog
             (sci_goto_pos sci (if effback then sci_get_selection_end sci
                                else sci_get_selection_start sci))
             k find_text flags effback"
  have bf: "buf (fst (snd found)) = buf sci"
    unfolding f by (simp add: buf_document_find_text sci_goto_pos_def)
  have unf: "res =
     (if sci_get_selection_end sci = sci_get_selection_start sci
      then (- 1, snd (document_find_text fnd suppress dialog sci k find_text flags effback))
      else if fst found \<noteq> sci_get_selection_start sci then (- 1, snd found)
      else if fst found \<noteq> - 1 then
        (fst found,
         sci_set_selection_end
           (sci_set_selection_start
              (snd (sci_target_replace rex (sci_target_from_selection (fst (snd found)))
                      replace_text (regexp_flag flags)))
              (fst found))
           (fst found +
            fst (sci_target_replace rex (sci_target_from_selection (fst (snd found)))
                   replace_text (regexp_flag flags))),
         snd (snd found))
      else (fst found, snd found))"
    unfolding r f e
    by (simp add: document_replace_text_def t Let_def case_prod_beta effective_backwards_def
          if_distrib [of "sci_goto_pos sci"] cong: if_cong)
  show ?thesis
    unfolding unf
    by (auto simp: bf buf_document_find_text)
qed

theorem document_replace_text_at_selection_start_witness:
  "document_replace_text plain_find (\<lambda>b s e t. t) True (\<lambda>n. True) sci_abcabc_sel_ab 0
       ''abc'' ''X'' 0 False =
     (0, (sci_of ''Xabc'')\<lparr>anchor := 0, caret := 1, tgt_end := 1, modified := True\<rparr>, 0) \<and>
   sci_get_selection_start sci_abcabc_sel_ab = 0 \<and>
   fst (document_find_text plain_find True (\<lambda>n. True) (sci_goto_pos sci_abcabc_sel_ab 0)
          0 ''abc'' 0 False) = 0"
proof -
  have t: "''abc'' \<noteq> []" by simp
  have eb: "False = effective_backwards 0 False" by (simp add: effective_backwards_def)
  have ss: "sci_get_selection_start sci_abcabc_sel_ab = 0"
    by (simp add: sci_abcabc_sel_ab_def sci_get_selection_start_def sci_of_def)
  note th = document_replace_text_at_selection_start [where fnd = plain_find
      and rex = "\<lambda>b s e t. t" and suppress = True and dialog = "\<lambda>n. True"
      and sci = sci_abcabc_sel_ab and k = 0 and replace_text = "''X''", OF t eb refl refl]
  from th have "fst (document_replace_text plain_find (\<lambda>b s e t. t) True (\<lambda>n. True)
        sci_abcabc_sel_ab 0 ''abc'' ''X'' 0 False) \<noteq> - 1 \<longrightarrow>
      fst (document_find_text plain_find True (\<lambda>n. True)
             (sci_goto_pos sci_abcabc_sel_ab
                (if False then sci_get_selection_end sci_abcabc_sel_ab
                 else sci_get_selection_start sci_abcabc_sel_ab))
             0 ''abc'' 0 False) = sci_get_selection_start sci_abcabc_sel_ab"
    by blast
  then have "fst (document_find_text plain_find True (\<lambda>n. True) (sci_goto_pos sci_abcabc_sel_ab 0)
          0 ''abc'' 0 False) = 0"
    by (simp add: replace_abc_result ss)
  with ss show ?thesis by (simp add: replace_abc_result)
qed

lemma search_bar_ab_in_abc:
  "document_search_bar_find plain_find sci_abc_at_1 ''ab'' 0 False =
     (True, (sci_of ''abc'')\<lparr>anchor := 0, caret := 2\<rparr>)"
  by code_simp

text \<open>
  C9, as the claim states it, fails: in \<open>abc\<close> with the caret at position 1, the
  pattern \<open>ab\<close> occurs neither between the anchor and the end of the buffer nor between
  the start of the buffer and the anchor, and the function still reports it found: the
  second search reaches to the anchor plus the length of the pattern.
\<close>

theorem document_search_bar_find_counterexample:
  "sci_get_selection_end sci_abc_at_1 = 1 \<and>
   plain_find 0 (buf sci_abc_at_1) 1 (sci_get_length sci_abc_at_1) ''ab'' = None \<and>
   plain_find 0 (buf sci_abc_at_1) 0 1 ''ab'' = None \<and>
   document_search_bar_find plain_find sci_abc_at_1 ''ab'' 0 False =
     (True, (sci_of ''abc'')\<lparr>anchor := 0, caret := 2\<rparr>)"
proof -
  have "sci_get_selection_end sci_abc_at_1 = 1"
    by (simp add: sci_abc_at_1_def sci_get_selection_end_def sci_of_def)
  moreover have "plain_find 0 (buf sci_abc_at_1) 1 (sci_get_length sci_abc_at_1) ''ab'' = None"
    by code_simp
  moreover have "plain_find 0 (buf sci_abc_at_1) 0 1 ''ab'' = None"
    by code_simp
  ultimately show ?thesis
    by (simp add: search_bar_ab_in_abc)
qed

text \<open>
  C9, amended. An empty pattern is reported as found and nothing moves. Otherwise the
  anchor is the end of the selection, or its start when the search is incremental; the
  first search runs from the anchor to the end of the buffer; on a miss a second search
  runs from the start of the buffer to the anchor plus the length of the pattern. A hit
  selects the match and is reported as found; a miss of both puts the caret at the anchor
  and is reported as not found.
\<close>

theorem document_search_bar_find_ranges:
  "document_search_bar_find fnd sci [] flags inc = (True, sci) \<and>
   (text \<noteq> [] \<longrightarrow>
      document_search_bar_find fnd sci text flags inc =
        (let start_pos = (if inc then sci_get_selection_start sci else sci_get_selection_end sci);
             first = fnd flags (buf sci) start_pos (sci_get_length sci) text;
             second = fnd flags (buf sci) 0 (start_pos + int (length text)) text;
             chosen = (if match_pos first = - 1 then second else first)
         in if match_pos chosen \<noteq> - 1
            then (True,
                  sci_set_selection_end
                    (sci_set_selection_start sci (fst (the chosen))) (snd (the chosen)))
            else (False, sci_goto_pos sci start_pos)))"
  by (auto simp: document_search_bar_find_def sci_find_text_def match_pos_def Let_def
        split: option.splits)

theorem document_search_bar_find_ranges_witness:
  "document_search_bar_find plain_find sci_abc_at_1 ''ab'' 0 False =
     (True, (sci_of ''abc'')\<lparr>anchor := 0, caret := 2\<rparr>) \<and>
   plain_find 0 (buf sci_abc_at_1) 0 (sci_get_selection_end sci_abc_at_1 + int (length ''ab'')) ''ab''
     = Some (0, 2)"
proof -
  have s: "plain_find 0 (buf sci_abc_at_1) 0 (sci_get_selection_end sci_abc_at_1 + int (length ''ab'')) ''ab''
     = Some (0, 2)"
    by code_simp
  have "''ab'' \<noteq> []" by simp
  with document_search_bar_find_ranges [of plain_find sci_abc_at_1 0 False "''ab''"]
  have "fst (document_search_bar_find plain_find sci_abc_at_1 ''ab'' 0 False) =
      (match_pos (if match_pos (plain_find 0 (buf sci_abc_at_1) (sci_get_selection_end sci_abc_at_1)
                      (sci_get_length sci_abc_at_1) ''ab'') = - 1
                  then plain_find 0 (buf sci_abc_at_1) 0
                         (sci_get_selection_end sci_abc_at_1 + int (length ''ab'')) ''ab''
                  else plain_find 0 (buf sci_abc_at_1) (sci_get_selection_end sci_abc_at_1)
                         (sci_get_length sci_abc_at_1) ''ab'') \<noteq> - 1)"
    by (simp add: Let_def)
  with s show ?thesis by (simp add: search_bar_ab_in_abc)
qed

section \<open>Properties of the registry\<close>



























lemma document_open_file_full_new_example:
  "fst (document_open_file_full sample_env [sample_doc] None (Some ''/tmp/b.txt'') 0 False None None)
     = Some 1 \<and>
   registry_identity
     (snd (document_open_file_full sample_env [sample_doc] None (Some ''/tmp/b.txt'') 0 False None None))
     = [(True, Some ''/tmp/a.txt'', Some ''/tmp/a.txt''),
        (True, Some ''/tmp/b.txt'', Some ''/tmp/b.txt'')]"
  by code_simp

text \<open>
  The Save As dialog of the disk check is reached from the branch of
  \<^verbatim>\<open>document_open_file_full\<close> for a file that is already open. When \<open>/tmp/a.txt\<close>
  and \<open>/tmp/b.txt\<close> are open, \<open>/tmp/a.txt\<close> is gone from the disk and the user saves
  it again as \<open>/tmp/b.txt\<close>, opening \<open>/tmp/a.txt\<close> returns the existing document and
  leaves two valid documents with the real path \<open>/tmp/b.txt\<close>.
\<close>

lemma document_open_file_full_resave_example:
  "fst (document_open_file_full resave_env
          (document_open_files writable_env [] [''/tmp/a.txt'', ''/tmp/b.txt''] False None None)
          None (Some ''/tmp/a.txt'') 0 False None None) = Some 0 \<and>
   registry_identity
     (snd (document_open_file_full resave_env
          (document_open_files writable_env [] [''/tmp/a.txt'', ''/tmp/b.txt''] False None None)
          None (Some ''/tmp/a.txt'') 0 False None None)) =
     [(True, Some ''/tmp/b.txt'', Some ''/tmp/b.txt''),
      (True, Some ''/tmp/b.txt'', Some ''/tmp/b.txt'')]"
  by code_simp





end
